theory Spec2Isabelle
  imports Main
begin

section \<open>Strings\<close>

text \<open>
  A JavaScript string is modelled as a \<^typ>\<open>string\<close>: one \<^typ>\<open>char\<close> per code unit, so
  that the strings of the model are the strings whose code units are below 256. The
  source's string literals are ASCII, with one exception: the name \<open>U+2716\<close> that the
  tolerant parser gives to an identifier it had to invent. That code unit is not below
  256; the name is kept apart as \<open>dummyName\<close>, written as its UTF-8 bytes.

  \<open>isWhiteSpace\<close> holds of the code units below 256 that \<^verbatim>\<open>\s\<close> and
  \<^verbatim>\<open>String.prototype.trim\<close> treat as white space (the white space and line terminator
  code points of the language): tab, line feed, vertical tab, form feed, carriage
  return, space and the no-break space \<open>U+00A0\<close>. The others (\<open>U+1680\<close>, \<open>U+2000\<close> to
  \<open>U+200A\<close>, \<open>U+2028\<close>, \<open>U+2029\<close>, \<open>U+202F\<close>, \<open>U+205F\<close>, \<open>U+3000\<close>, \<open>U+FEFF\<close>) are not
  code units of a string of the model.
\<close>

definition isWhiteSpace :: "char \<Rightarrow> bool" where
  "isWhiteSpace c =
     (c \<in> set [CHR 0x09, CHR 0x0A, CHR 0x0B, CHR 0x0C, CHR 0x0D, CHR 0x20, CHR 0xA0])"

definition dummyName :: string where
  "dummyName = [CHR 0xE2, CHR 0x9C, CHR 0x96]"

text \<open>\<^verbatim>\<open>s.startsWith(p)\<close>, \<^verbatim>\<open>s.endsWith(p)\<close>, \<^verbatim>\<open>s.slice(a, b)\<close> for indices that are
  natural numbers, \<^verbatim>\<open>s.trim()\<close>, \<^verbatim>\<open>s.includes(t)\<close>, \<^verbatim>\<open>s.lastIndexOf(c)\<close> (\<open>-1\<close> when
  \<open>c\<close> does not occur) and \<^verbatim>\<open>xs.join(sep)\<close> on an array of strings.\<close>

definition startsWith :: "string \<Rightarrow> string \<Rightarrow> bool" where
  "startsWith s p = (take (length p) s = p)"

definition endsWith :: "string \<Rightarrow> string \<Rightarrow> bool" where
  "endsWith s p = (length p \<le> length s \<and> drop (length s - length p) s = p)"

definition slice :: "string \<Rightarrow> nat \<Rightarrow> nat \<Rightarrow> string" where
  "slice s a b = take (b - a) (drop a s)"

definition trim :: "string \<Rightarrow> string" where
  "trim s = rev (dropWhile isWhiteSpace (rev (dropWhile isWhiteSpace s)))"

fun str_includes :: "string \<Rightarrow> string \<Rightarrow> bool" where
  "str_includes [] t = (t = [])"
| "str_includes (c # cs) t = (startsWith (c # cs) t \<or> str_includes cs t)"

definition lastIndexOf :: "string \<Rightarrow> char \<Rightarrow> int" where
  "lastIndexOf s c =
     (if c \<in> set s
      then int (length s) - 1 - int (length (takeWhile (\<lambda>x. x \<noteq> c) (rev s)))
      else - 1)"

fun join :: "string \<Rightarrow> string list \<Rightarrow> string" where
  "join sep [] = []"
| "join sep [x] = x"
| "join sep (x # y # ys) = x @ sep @ join sep (y # ys)"

section \<open>Data of the inspector protocol\<close>

text \<open>
  A \<^verbatim>\<open>RemoteObject\<close> as the source reads it: the fields \<^verbatim>\<open>type\<close>, \<^verbatim>\<open>subtype\<close>,
  \<^verbatim>\<open>className\<close>, \<^verbatim>\<open>description\<close> and \<^verbatim>\<open>objectId\<close>; \<open>None\<close> is a field that is
  \<^verbatim>\<open>undefined\<close>. The primitive carried in \<^verbatim>\<open>value\<close> is only ever handed to
  \<^verbatim>\<open>util.inspect\<close>, which takes the whole object here.
\<close>

record remote_object =
  type :: string
  subtype :: "string option"
  className :: "string option"
  description :: "string option"
  objectId :: "string option"

record exception_details =
  exception :: "remote_object option"

record evaluate_result =
  result :: remote_object
  exceptionDetails :: "exception_details option"

text \<open>The object literal that \<^verbatim>\<open>performEval\<close> passes to \<^verbatim>\<open>Runtime.evaluate\<close>;
  \<open>timeout = None\<close> is \<^verbatim>\<open>undefined\<close>.\<close>

record request =
  expression :: string
  generatePreview :: bool
  awaitPromise :: bool
  silent :: bool
  throwOnSideEffect :: bool
  timeout :: "nat option"
  executionContextId :: nat

text \<open>An entry of the result of \<^verbatim>\<open>Runtime.getProperties\<close>; \<open>symbol\<close> says whether the
  entry has a \<^verbatim>\<open>symbol\<close> field.\<close>

record property_descriptor =
  name :: string
  isOwn :: bool
  symbol :: bool

text \<open>What can go wrong inside the engine: a JavaScript \<^verbatim>\<open>TypeError\<close> (a property read
  of \<^verbatim>\<open>undefined\<close> or \<^verbatim>\<open>null\<close>, a regular expression given to \<^verbatim>\<open>startsWith\<close>), or a
  protocol round trip whose promise is rejected.\<close>

datatype error = TypeError | ProtocolError

section \<open>Syntax trees\<close>

text \<open>
  The tolerant parser (\<^verbatim>\<open>parse_dammit\<close>) and the strict parser (\<^verbatim>\<open>acorn.parse\<close>) are
  libraries; the model takes them as parameters and gives their results the shape of
  the fields the source reads.

  The value of a \<^verbatim>\<open>Literal\<close> node: a string, a number (\<open>'n\<close> is the type of JavaScript
  numbers, left abstract), a boolean, \<^verbatim>\<open>null\<close> or a regular expression.
\<close>

datatype 'n literal_value =
  StringValue string | NumberValue 'n | BooleanValue bool | NullValue | RegExpValue

text \<open>An expression of the buffer, with its \<^verbatim>\<open>start\<close> and \<^verbatim>\<open>end\<close> offsets. A
  \<^verbatim>\<open>CallExpression\<close> has its \<^verbatim>\<open>callee\<close> and \<^verbatim>\<open>arguments\<close>, a \<^verbatim>\<open>MemberExpression\<close> its
  \<^verbatim>\<open>object\<close>, \<^verbatim>\<open>computed\<close> and \<^verbatim>\<open>property\<close>, a \<^verbatim>\<open>Literal\<close> its \<^verbatim>\<open>value\<close> and \<^verbatim>\<open>raw\<close>.\<close>

datatype 'n expr = Expr (node_start: nat) (node_end: nat) (node: "'n expr_node")
and 'n expr_node =
    Identifier string
  | CallExpression "'n expr" "'n expr list"
  | MemberExpression "'n expr" bool "'n expr"
  | Literal "'n literal_value" string
  | OtherExpression

text \<open>A statement of a tolerantly parsed program. \<open>FunctionDeclaration\<close> stands for the
  statements that have an \<^verbatim>\<open>id\<close> field (function and class declarations), with the
  name of that identifier, or \<open>None\<close> when \<^verbatim>\<open>id\<close> is \<^verbatim>\<open>null\<close>.\<close>

datatype 'n statement =
  ExpressionStatement "'n expr" | FunctionDeclaration "string option" | OtherStatement

text \<open>
  A parameter pattern of a strictly parsed function. An \<^verbatim>\<open>ObjectPattern\<close> is given by
  the \<^verbatim>\<open>value\<close> of each of its \<^verbatim>\<open>properties\<close>, an \<^verbatim>\<open>ArrayPattern\<close> by its
  \<^verbatim>\<open>elements\<close>. \<open>NoPattern\<close> is \<^verbatim>\<open>null\<close> or \<^verbatim>\<open>undefined\<close> in such a list: an elision
  in an array pattern (\<^verbatim>\<open>[a, , b]\<close>), or the \<^verbatim>\<open>value\<close> that a rest element inside an
  object pattern (\<^verbatim>\<open>{ a, ...r }\<close>) does not have.
\<close>

datatype pattern =
    IdentifierPattern string
  | AssignmentPattern pattern
  | ObjectPattern "pattern list"
  | ArrayPattern "pattern list"
  | RestElement pattern
  | OtherPattern
  | NoPattern

text \<open>A method of a class body (\<^verbatim>\<open>kind\<close> and \<^verbatim>\<open>value.params\<close>); the first property of
  an object literal (\<^verbatim>\<open>value.params\<close>, \<open>None\<close> when the value is not a function; a
  spread element has no \<^verbatim>\<open>value\<close>); the expression that a description parses to.\<close>

datatype method_definition = MethodDefinition (method_kind: string) (method_params: "pattern list")

datatype object_member = Property "pattern list option" | SpreadElement

datatype function_expr =
    ClassExpression "method_definition list"
  | ObjectExpression "object_member list"
  | FunctionExpression "pattern list"
  | ArrowFunctionExpression "pattern list"
  | OtherFunctionExpr

datatype parsed_statement = ParsedExpressionStatement function_expr | ParsedOtherStatement

section \<open>The environment and the state\<close>

text \<open>
  Everything the source imports and does not define. \<open>'w\<close> is the state of the target
  process, which every protocol round trip may change; a round trip returns \<open>Inl\<close> when
  its promise is rejected.
  \<^item> JavaScript itself: \<open>asyncFunctionParses\<close> (the \<^verbatim>\<open>AsyncFunction\<close> constructor accepts
    the body), \<open>toNumber\<close> (unary \<^verbatim>\<open>+\<close> on a string), \<open>numberToString\<close>, \<open>numberTruthy\<close>,
    \<open>globalOwnPropertyNames\<close> (\<^verbatim>\<open>Object.getOwnPropertyNames(global)\<close>), the three calls of
    \<^verbatim>\<open>util.inspect\<close> with their options.
  \<^item> acorn: \<open>parseDammit\<close> gives the \<^verbatim>\<open>body\<close> of the program, \<open>acorn_parse\<close> too, or
    \<open>None\<close> when it throws.
  \<^item> Modules of the repository: \<open>processTopLevelAwait\<close> (\<open>None\<close> is \<^verbatim>\<open>null\<close>),
    \<open>isRecoverableError\<close>, \<open>strEscape\<close>, \<open>isIdentifier\<close>, and the table \<open>NativeFunctions\<close>:
    owner, then member, then the array whose first element is a list of parameter tokens.
  \<^item> The inspector: \<open>mainContextId\<close> and the four operations of \<^verbatim>\<open>Runtime\<close>. The function
    that \<^verbatim>\<open>callFunctionOn\<close> is given is one of three assignments, named by a \<open>slot\<close>.
\<close>

datatype slot = Last | LastError | InspectTarget

record ('n, 'w) env =
  asyncFunctionParses :: "string \<Rightarrow> bool"
  toNumber :: "string \<Rightarrow> 'n"
  numberToString :: "'n \<Rightarrow> string"
  numberTruthy :: "'n \<Rightarrow> bool"
  globalOwnPropertyNames :: "'w \<Rightarrow> string list"
  inspect :: "remote_object option \<Rightarrow> string"
  inspectCompact :: "remote_object option \<Rightarrow> string"
  inspectValue :: "remote_object \<Rightarrow> string"
  parseDammit :: "string \<Rightarrow> 'n statement list"
  acorn_parse :: "string \<Rightarrow> parsed_statement list option"
  processTopLevelAwait :: "string \<Rightarrow> string option"
  isRecoverableError :: "string \<Rightarrow> bool"
  strEscape :: "string \<Rightarrow> string"
  isIdentifier :: "string \<Rightarrow> bool"
  NativeFunctions :: "string \<Rightarrow> (string \<Rightarrow> string list list option) option"
  mainContextId :: nat
  Runtime_evaluate :: "request \<Rightarrow> 'w \<Rightarrow> (error + evaluate_result) \<times> 'w"
  Runtime_callFunctionOn :: "slot \<Rightarrow> remote_object option \<Rightarrow> nat \<Rightarrow> 'w \<Rightarrow> (error + unit) \<times> 'w"
  Runtime_getProperties :: "string option \<Rightarrow> 'w \<Rightarrow> (error + property_descriptor list) \<times> 'w"
  Runtime_globalLexicalScopeNames :: "'w \<Rightarrow> (error + string list) \<times> 'w"

text \<open>
  The mutable state: \<^verbatim>\<open>global.REPL.last\<close>, \<^verbatim>\<open>global.REPL.lastError\<close> and
  \<^verbatim>\<open>global.REPL._inspectTarget\<close> (each starts \<^verbatim>\<open>undefined\<close>, that is \<open>None\<close>), the map
  \<^verbatim>\<open>functionCompletionCache\<close>, keyed by an \<^verbatim>\<open>objectId\<close> that may be \<^verbatim>\<open>undefined\<close>, and the
  target process. The three slots hold the value that a remote object stands for. They
  are written where the engine assigns them; what evaluated user code does to
  \<^verbatim>\<open>global.REPL\<close> is part of \<open>world\<close>.
\<close>

record 'w state =
  REPL_last :: "remote_object option"
  REPL_lastError :: "remote_object option"
  REPL_inspectTarget :: "remote_object option"
  functionCompletionCache :: "string option \<Rightarrow> string list option"
  world :: 'w

text \<open>An asynchronous function of the source: it takes the state, and returns an error
  (a thrown exception, a rejected promise) or a value, with the new state.\<close>

type_synonym ('a, 'w) io = "'w state \<Rightarrow> (error + 'a) \<times> 'w state"

definition ret :: "'a \<Rightarrow> ('a, 'w) io" where
  "ret x = (\<lambda>s. (Inr x, s))"

definition throw :: "error \<Rightarrow> ('a, 'w) io" where
  "throw e = (\<lambda>s. (Inl e, s))"

definition bindE :: "('a, 'w) io \<Rightarrow> ('a \<Rightarrow> ('b, 'w) io) \<Rightarrow> ('b, 'w) io" where
  "bindE m f = (\<lambda>s. case m s of (Inl e, s') \<Rightarrow> (Inl e, s') | (Inr a, s') \<Rightarrow> f a s')"

definition liftE :: "error + 'a \<Rightarrow> ('a, 'w) io" where
  "liftE r = (\<lambda>s. (r, s))"

definition roundTrip :: "('w \<Rightarrow> (error + 'a) \<times> 'w) \<Rightarrow> ('a, 'w) io" where
  "roundTrip f = (\<lambda>s. case f (world s) of (r, w) \<Rightarrow> (r, s\<lparr>world := w\<rparr>))"

section \<open>Evaluation\<close>

text \<open>
  \<^verbatim>\<open>wrapObjectLiteralExpressionIfNeeded\<close> (lines 35 to 54). \<open>braceShape\<close> is the test of
  the two regular expressions \<^verbatim>\<open>/^\s*\{/\<close> and \<^verbatim>\<open>/\}\s*$/\<close>: white space, then an opening
  brace, at the start, and a closing brace, then white space, at the end. Either
  failed parse is caught and gives the code back.
\<close>

definition braceShape :: "string \<Rightarrow> bool" where
  "braceShape code =
     (startsWith (dropWhile isWhiteSpace code) ''{'' \<and>
      startsWith (dropWhile isWhiteSpace (rev code)) ''}'')"

definition wrapObjectLiteralExpressionIfNeeded :: "('n, 'w) env \<Rightarrow> string \<Rightarrow> string" where
  "wrapObjectLiteralExpressionIfNeeded E code =
     (if \<not> braceShape code then code
      else if asyncFunctionParses E (''return '' @ code @ '';'') then
        (let wrappedCode = ''('' @ code @ '')'' in
         if asyncFunctionParses E wrappedCode then wrappedCode else code)
      else code)"

text \<open>\<^verbatim>\<open>performEval\<close> (lines 66 to 77): the only place that calls \<^verbatim>\<open>Runtime.evaluate\<close>.\<close>

definition performEval ::
  "('n, 'w) env \<Rightarrow> string \<Rightarrow> bool \<Rightarrow> bool \<Rightarrow> (evaluate_result, 'w) io" where
  "performEval E code awaitP bestEffort =
     (let expr = wrapObjectLiteralExpressionIfNeeded E code in
      roundTrip (Runtime_evaluate E
        \<lparr> expression = expr,
          generatePreview = True,
          awaitPromise = awaitP,
          silent = bestEffort,
          throwOnSideEffect = bestEffort,
          timeout = (if bestEffort then Some 500 else None),
          executionContextId = mainContextId E \<rparr>))"

text \<open>
  \<^verbatim>\<open>callFunctionOn\<close> (lines 79 to 85, and the call in lines 132 to 138): the round trip,
  and then the assignment that the function given to it makes in the target process.
\<close>

definition assign :: "slot \<Rightarrow> remote_object option \<Rightarrow> 'w state \<Rightarrow> 'w state" where
  "assign sl v s =
     (case sl of
        Last \<Rightarrow> s\<lparr>REPL_last := v\<rparr>
      | LastError \<Rightarrow> s\<lparr>REPL_lastError := v\<rparr>
      | InspectTarget \<Rightarrow> s\<lparr>REPL_inspectTarget := v\<rparr>)"

definition callFunctionOn ::
  "('n, 'w) env \<Rightarrow> slot \<Rightarrow> remote_object option \<Rightarrow> (unit, 'w) io" where
  "callFunctionOn E sl remoteObject =
     bindE (roundTrip (Runtime_callFunctionOn E sl remoteObject (mainContextId E)))
       (\<lambda>_. (\<lambda>s. (Inr (), assign sl remoteObject s)))"

subsection \<open>A submitted line\<close>

text \<open>
  \<^verbatim>\<open>onLine\<close> (lines 87 to 122) in its three steps: the rewrite of a line that contains
  \<^verbatim>\<open>await\<close> (lines 88 to 95), which gives the line to evaluate and \<^verbatim>\<open>awaited\<close>; the
  evaluation (line 97); and what is done with its result (lines 99 to 121).
  \<open>kNeedsAnotherLine\<close> is \<^verbatim>\<open>IO.kNeedsAnotherLine\<close>.
\<close>

datatype line_result = kNeedsAnotherLine | Rendered string

definition onLine_rewrite :: "('n, 'w) env \<Rightarrow> string \<Rightarrow> string \<times> bool" where
  "onLine_rewrite E line =
     (if str_includes line ''await'' then
        (case processTopLevelAwait E line of
           None \<Rightarrow> (line, False)
         | Some processed \<Rightarrow> (processed, True))
      else (line, False))"

definition onLine_result ::
  "('n, 'w) env \<Rightarrow> string \<Rightarrow> evaluate_result \<Rightarrow> (line_result, 'w) io" where
  "onLine_result E line evaluateResult =
     (case exceptionDetails evaluateResult of
        Some details \<Rightarrow>
          (let expr = wrapObjectLiteralExpressionIfNeeded E line in
           if isRecoverableError E expr then ret kNeedsAnotherLine
           else bindE (callFunctionOn E LastError (exception details))
                  (\<lambda>_. (\<lambda>s. (Inr (Rendered (inspect E (REPL_lastError s))), s))))
      | None \<Rightarrow>
          bindE (callFunctionOn E Last (Some (result evaluateResult)))
            (\<lambda>_. (\<lambda>s. (Inr (Rendered (inspect E (REPL_last s))), s))))"

definition onLine :: "('n, 'w) env \<Rightarrow> string \<Rightarrow> (line_result, 'w) io" where
  "onLine E submitted =
     (case onLine_rewrite E submitted of
        (line, awaited) \<Rightarrow>
          bindE (performEval E line awaited False) (onLine_result E line))"

subsection \<open>The inline preview\<close>

text \<open>\<^verbatim>\<open>oneLineEval\<close> (lines 124 to 148); \<open>None\<close> is \<^verbatim>\<open>undefined\<close>. An \<^verbatim>\<open>objectId\<close> is
  truthy when it is a string that is not empty.\<close>

definition truthyId :: "string option \<Rightarrow> bool" where
  "truthyId i = (case i of None \<Rightarrow> False | Some t \<Rightarrow> t \<noteq> [])"

definition oneLineEval :: "('n, 'w) env \<Rightarrow> string \<Rightarrow> (string option, 'w) io" where
  "oneLineEval E source =
     bindE (performEval E (wrapObjectLiteralExpressionIfNeeded E source) False True)
       (\<lambda>r. case exceptionDetails r of
               Some _ \<Rightarrow> ret None
             | None \<Rightarrow>
                 if truthyId (objectId (result r)) then
                   bindE (callFunctionOn E InspectTarget (Some (result r)))
                     (\<lambda>_. (\<lambda>s. (Inr (Some ('' // '' @
                                trim (inspectCompact E (REPL_inspectTarget s)))), s)))
                 else ret (Some ('' // '' @ inspectValue E (result r))))"

section \<open>Completion\<close>

text \<open>\<^verbatim>\<open>collectGlobalNames\<close> (lines 56 to 62): the own property names of the global
  object, with the global lexical scope names put in front when that round trip
  succeeds; its failure is caught.\<close>

definition collectGlobalNames :: "('n, 'w) env \<Rightarrow> (string list, 'w) io" where
  "collectGlobalNames E =
     (\<lambda>s. let keys = globalOwnPropertyNames E (world s) in
           case roundTrip (Runtime_globalLexicalScopeNames E) s of
             (Inl _, s') \<Rightarrow> (Inr keys, s')
           | (Inr names, s') \<Rightarrow> (Inr (names @ keys), s'))"

subsection \<open>Parameters of a call\<close>

text \<open>
  \<^verbatim>\<open>finishParams\<close> (lines 179 to 195), with the \<^verbatim>\<open>arguments\<close> of the call expression and
  the buffer, which the source's closure captures, as parameters. \<open>None\<close> is \<^verbatim>\<open>undefined\<close>.
\<close>

definition finishParams :: "'n expr list \<Rightarrow> string \<Rightarrow> string list \<Rightarrow> string option" where
  "finishParams args buffer params =
     (if length args = length params then None
      else
        (let joined = join '', '' (drop (length args) params) in
         if length args > 0 then
           (if endsWith (trim buffer) '','' then
              (let spaces = int (length buffer) - (lastIndexOf buffer (CHR '','') + 1) in
               if spaces > 0 then Some joined else Some ('' '' @ joined))
            else Some ('', '' @ joined))
         else Some joined))"

text \<open>
  \<^verbatim>\<open>paramName\<close> (lines 252 to 271), and \<open>paramNames\<close> for \<^verbatim>\<open>.map(paramName)\<close> over a list:
  the first element that throws ends the whole call. Reading \<^verbatim>\<open>param.type\<close> throws when
  \<^verbatim>\<open>param\<close> is \<^verbatim>\<open>null\<close> or \<^verbatim>\<open>undefined\<close>.
\<close>

fun paramName :: "pattern \<Rightarrow> error + string"
and paramNames :: "pattern list \<Rightarrow> error + string list" where
  "paramName (IdentifierPattern n) = Inr n"
| "paramName (AssignmentPattern left) =
     (case paramName left of Inl e \<Rightarrow> Inl e | Inr t \<Rightarrow> Inr (''?'' @ t))"
| "paramName (ObjectPattern ps) =
     (case paramNames ps of Inl e \<Rightarrow> Inl e
      | Inr ts \<Rightarrow> Inr (''{ '' @ join '', '' ts @ '' }''))"
| "paramName (ArrayPattern ps) =
     (case paramNames ps of Inl e \<Rightarrow> Inl e
      | Inr ts \<Rightarrow> Inr (''[ '' @ join '', '' ts @ '' ]''))"
| "paramName (RestElement arg) =
     (case paramName arg of Inl e \<Rightarrow> Inl e | Inr t \<Rightarrow> Inr (''...'' @ t))"
| "paramName OtherPattern = Inr ''?''"
| "paramName NoPattern = Inl TypeError"
| "paramNames [] = Inr []"
| "paramNames (p # ps) =
     (case paramName p of Inl e \<Rightarrow> Inl e
      | Inr t \<Rightarrow> (case paramNames ps of Inl e \<Rightarrow> Inl e | Inr ts \<Rightarrow> Inr (t # ts)))"

text \<open>
  \<^verbatim>\<open>parseDammit(description).body[0].id\<close>, destructured for its \<^verbatim>\<open>name\<close> (lines 203,
  287 and 289). A description that is \<^verbatim>\<open>undefined\<close> is parsed as the text
  \<^verbatim>\<open>undefined\<close>. A program with no statement, a statement with no \<^verbatim>\<open>id\<close> and an \<^verbatim>\<open>id\<close>
  that is \<^verbatim>\<open>null\<close> each throw.
\<close>

definition functionName :: "('n, 'w) env \<Rightarrow> string option \<Rightarrow> error + string" where
  "functionName E d =
     (case parseDammit E (case d of None \<Rightarrow> ''undefined'' | Some t \<Rightarrow> t) of
        [] \<Rightarrow> Inl TypeError
      | st # _ \<Rightarrow>
          (case st of
             FunctionDeclaration (Some n) \<Rightarrow> Inr n
           | _ \<Rightarrow> Inl TypeError))"

text \<open>\<^verbatim>\<open>NativeFunctions[owner][member]\<close> (lines 204 and 290): reading a member of an
  owner that the table does not have throws.\<close>

definition nativeEntry ::
  "('n, 'w) env \<Rightarrow> string \<Rightarrow> string \<Rightarrow> error + string list list option" where
  "nativeEntry E owner member =
     (case NativeFunctions E owner of
        None \<Rightarrow> Inl TypeError
      | Some members \<Rightarrow> Inr (members member))"

text \<open>
  \<^verbatim>\<open>functionCompletionCache.set(key, v)\<close>. A value that is \<^verbatim>\<open>undefined\<close> (\<open>None\<close>) is
  stored as no entry: the cache is only read by \<^verbatim>\<open>get\<close>, compared with \<^verbatim>\<open>undefined\<close>.
\<close>

definition cacheSet :: "string option \<Rightarrow> string list option \<Rightarrow> 'w state \<Rightarrow> 'w state" where
  "cacheSet key v s = s\<lparr>functionCompletionCache := (functionCompletionCache s)(key := v)\<rparr>"

text \<open>
  Lines 205 to 208 and 291 to 294: an entry of the table is cached under the key and its
  first element handed to \<^verbatim>\<open>finishParams\<close>. With no entry, \<^verbatim>\<open>entry[0]\<close> throws; with an
  empty entry, \<^verbatim>\<open>undefined\<close> is cached and \<^verbatim>\<open>params.length\<close> throws.
\<close>

definition useEntry ::
  "string option \<Rightarrow> string list list option \<Rightarrow> 'n expr list \<Rightarrow> string \<Rightarrow> (string option, 'w) io" where
  "useEntry key entry args buffer =
     (case entry of
        None \<Rightarrow> throw TypeError
      | Some [] \<Rightarrow> (\<lambda>s. (Inl TypeError, cacheSet key None s))
      | Some (params # _) \<Rightarrow> (\<lambda>s. (Inr (finishParams args buffer params), cacheSet key (Some params) s)))"

text \<open>Lines 213 to 223: the description is parsed as an expression in parentheses,
  and, when that throws, as the body of an object literal.\<close>

definition parseDescription :: "('n, 'w) env \<Rightarrow> string \<Rightarrow> parsed_statement list option" where
  "parseDescription E d =
     (case acorn_parse E (''('' @ d @ '')'') of
        Some parsed \<Rightarrow> Some parsed
      | None \<Rightarrow> acorn_parse E (''({'' @ d @ ''})''))"

text \<open>Lines 224 to 250: the parameters of the parsed expression; \<open>None\<close> is a \<^verbatim>\<open>params\<close>
  that stays \<^verbatim>\<open>undefined\<close>.\<close>

definition functionParams :: "function_expr \<Rightarrow> pattern list option" where
  "functionParams e =
     (case e of
        ClassExpression methods \<Rightarrow>
          (case List.find (\<lambda>m. method_kind m = ''constructor'') methods of
             None \<Rightarrow> None
           | Some c \<Rightarrow> Some (method_params c))
      | ObjectExpression properties \<Rightarrow>
          (case properties of
             [] \<Rightarrow> None
           | SpreadElement # _ \<Rightarrow> None
           | Property ps # _ \<Rightarrow> ps)
      | FunctionExpression ps \<Rightarrow> Some ps
      | ArrowFunctionExpression ps \<Rightarrow> Some ps
      | OtherFunctionExpr \<Rightarrow> None)"

definition parsedParams :: "parsed_statement list option \<Rightarrow> pattern list option" where
  "parsedParams parsed =
     (case parsed of
        None \<Rightarrow> None
      | Some [] \<Rightarrow> None
      | Some (ParsedOtherStatement # _) \<Rightarrow> None
      | Some (ParsedExpressionStatement e # _) \<Rightarrow> functionParams e)"

text \<open>
  Lines 202 to 299, entered when the cache gave no suggestion: the three ways to find
  the parameters of the callee from its description. The result is the \<^verbatim>\<open>c\<close> that is
  returned, or \<open>None\<close> when control leaves the block.
\<close>

definition completeFromDescription ::
  "('n, 'w) env \<Rightarrow> string \<Rightarrow> 'n expr \<Rightarrow> 'n expr list \<Rightarrow> remote_object \<Rightarrow> (string option, 'w) io" where
  "completeFromDescription E buffer callee args r =
     (case description r of
        None \<Rightarrow> throw TypeError
      | Some d \<Rightarrow>
          if str_includes d ''[native code]'' then
            bindE (liftE (functionName E (Some d)))
              (\<lambda>n. bindE (liftE (nativeEntry E ''globalThis'' n))
                (\<lambda>entry. useEntry (objectId r) entry args buffer))
          else if length d < 10000 then
            (case parsedParams (parseDescription E d) of
               None \<Rightarrow> ret None
             | Some ps \<Rightarrow>
                 (case paramNames ps of
                    Inl e \<Rightarrow> throw e
                  | Inr params \<Rightarrow>
                      (\<lambda>s. (Inr (finishParams args buffer params),
                            cacheSet (objectId r) (Some params) s))))
          else
            (case node callee of
               MemberExpression obj _ _ \<Rightarrow>
                 bindE (performEval E (slice buffer (node_start obj) (node_end obj)) False True)
                   (\<lambda>rr. case exceptionDetails rr of
                      Some _ \<Rightarrow> ret None
                    | None \<Rightarrow>
                        bindE (liftE
                                (if type (result rr) = ''function''
                                 then functionName E (description (result rr))
                                 else Inr (case className (result rr) of
                                             None \<Rightarrow> ''undefined'' | Some c \<Rightarrow> c)))
                          (\<lambda>receiver. bindE (liftE (functionName E (Some d)))
                            (\<lambda>n. bindE (liftE (nativeEntry E receiver n))
                              (\<lambda>entry. useEntry (objectId (result rr)) entry args buffer))))
             | _ \<Rightarrow> ret None))"

text \<open>Lines 174 to 300: the callee is evaluated, the cache consulted, then the
  description.\<close>

definition completeCall ::
  "('n, 'w) env \<Rightarrow> string \<Rightarrow> 'n expr \<Rightarrow> 'n expr list \<Rightarrow> (string option, 'w) io" where
  "completeCall E buffer callee args =
     bindE (performEval E (slice buffer (node_start callee) (node_end callee)) False True)
       (\<lambda>evaluateResult.
          case exceptionDetails evaluateResult of
            Some _ \<Rightarrow> ret None
          | None \<Rightarrow>
              (\<lambda>s. case (case functionCompletionCache s (objectId (result evaluateResult)) of
                            None \<Rightarrow> None
                          | Some hit \<Rightarrow> finishParams args buffer hit) of
                      Some c \<Rightarrow> (Inr (Some c), s)
                    | None \<Rightarrow> completeFromDescription E buffer callee args (result evaluateResult) s))"

subsection \<open>Keys and the filter\<close>

text \<open>
  The \<^verbatim>\<open>filter\<close> variable: \<open>None\<close> is \<^verbatim>\<open>undefined\<close>, otherwise the name of an identifier
  or the value of a literal. \<open>truthy\<close> is the test \<^verbatim>\<open>if (filter)\<close>;
  \<open>keysInclude\<close> is \<^verbatim>\<open>keys.includes(filter)\<close> on an array of strings, which only a
  string can be an element of.
\<close>

definition truthy :: "('n, 'w) env \<Rightarrow> 'n literal_value option \<Rightarrow> bool" where
  "truthy E f =
     (case f of
        None \<Rightarrow> False
      | Some (StringValue t) \<Rightarrow> t \<noteq> []
      | Some (NumberValue n) \<Rightarrow> numberTruthy E n
      | Some (BooleanValue b) \<Rightarrow> b
      | Some NullValue \<Rightarrow> False
      | Some RegExpValue \<Rightarrow> True)"

definition keysInclude :: "string list \<Rightarrow> 'n literal_value option \<Rightarrow> bool" where
  "keysInclude keys f =
     (case f of Some (StringValue t) \<Rightarrow> t \<in> set keys | _ \<Rightarrow> False)"

text \<open>
  Lines 369 to 371 for one key: \<^verbatim>\<open>k.startsWith(filter)\<close> converts the filter to a string,
  and throws for a regular expression; \<^verbatim>\<open>k.slice(filter.length)\<close> removes the filter
  from the front when the filter is a string, and nothing when \<^verbatim>\<open>filter.length\<close> is
  \<^verbatim>\<open>undefined\<close>. \<open>filterKeys\<close> is the whole of lines 367 to 374; the array \<^verbatim>\<open>keys\<close> is
  an object, and so truthy.
\<close>

definition keyStartsWith :: "('n, 'w) env \<Rightarrow> string \<Rightarrow> 'n literal_value \<Rightarrow> error + bool" where
  "keyStartsWith E k f =
     (case f of
        StringValue t \<Rightarrow> Inr (startsWith k t)
      | NumberValue n \<Rightarrow> Inr (startsWith k (numberToString E n))
      | BooleanValue b \<Rightarrow> Inr (startsWith k (if b then ''true'' else ''false''))
      | NullValue \<Rightarrow> Inr (startsWith k ''null'')
      | RegExpValue \<Rightarrow> Inl TypeError)"

definition sliceFilter :: "string \<Rightarrow> 'n literal_value \<Rightarrow> string" where
  "sliceFilter k f = (case f of StringValue t \<Rightarrow> drop (length t) k | _ \<Rightarrow> k)"

fun keepStarting :: "('n, 'w) env \<Rightarrow> 'n literal_value \<Rightarrow> string list \<Rightarrow> error + string list" where
  "keepStarting E f [] = Inr []"
| "keepStarting E f (k # ks) =
     (case keyStartsWith E k f of
        Inl e \<Rightarrow> Inl e
      | Inr b \<Rightarrow>
          (case keepStarting E f ks of
             Inl e \<Rightarrow> Inl e
           | Inr rest \<Rightarrow> Inr (if b then k # rest else rest)))"

definition filterKeys ::
  "('n, 'w) env \<Rightarrow> string list \<Rightarrow> 'n literal_value option \<Rightarrow> error + string list" where
  "filterKeys E keys f =
     (case f of
        None \<Rightarrow> Inr keys
      | Some v \<Rightarrow>
          if truthy E (Some v) then
            (case keepStarting E v keys of
               Inl e \<Rightarrow> Inl e
             | Inr kept \<Rightarrow> Inr (map (\<lambda>k. sliceFilter k v) kept))
          else Inr keys)"

subsection \<open>Member access\<close>

text \<open>
  Lines 303 to 309: the filter and \<^verbatim>\<open>leadingQuote\<close> of a member expression, from
  \<^verbatim>\<open>computed\<close> and the \<^verbatim>\<open>property\<close> node. The quote looked for is the single quote.
\<close>

definition memberFilter :: "bool \<Rightarrow> 'n expr \<Rightarrow> 'n literal_value option \<times> bool" where
  "memberFilter computed prop =
     (case node prop of
        Literal v raw \<Rightarrow>
          if computed then (Some v, startsWith raw [CHR 0x27]) else (None, False)
      | Identifier n \<Rightarrow>
          if \<not> computed then (if n = dummyName then None else Some (StringValue n), False)
          else (None, False)
      | _ \<Rightarrow> (None, False))"

text \<open>Lines 311 to 325: the receiver is evaluated, and evaluated again inside
  \<^verbatim>\<open>Object(...)\<close> when it is a primitive; \<open>None\<close> when \<^verbatim>\<open>undefined\<close> is returned.\<close>

definition receiverObject :: "('n, 'w) env \<Rightarrow> string \<Rightarrow> (evaluate_result option, 'w) io" where
  "receiverObject E src =
     bindE (performEval E src False True)
       (\<lambda>r1. case exceptionDetails r1 of
          Some _ \<Rightarrow> ret None
        | None \<Rightarrow>
            if type (result r1) \<noteq> ''object'' \<and> type (result r1) \<noteq> ''undefined'' \<and>
               subtype (result r1) \<noteq> Some ''null''
            then
              bindE (performEval E
                      (''Object('' @ wrapObjectLiteralExpressionIfNeeded E src @ '')'') False True)
                (\<lambda>r2. case exceptionDetails r2 of
                   Some _ \<Rightarrow> ret None
                 | None \<Rightarrow> ret (Some r2))
            else ret (Some r1))"

text \<open>Lines 327 to 343: the names of the properties that are not symbols, own ones
  first.\<close>

definition propertyKeys :: "property_descriptor list \<Rightarrow> string list" where
  "propertyKeys props =
     (let named = filter (\<lambda>p. \<not> symbol p) props in
      map name (filter isOwn named) @ map name (filter (\<lambda>p. \<not> isOwn p) named))"

text \<open>Lines 350 to 361: a key of a bracket access, as it is offered.\<close>

definition bracketKey :: "('n, 'w) env \<Rightarrow> bool \<Rightarrow> string \<Rightarrow> string" where
  "bracketKey E leadingQuote key =
     (let r = (if \<not> leadingQuote \<and> numberToString E (toNumber E key) = key then key
               else (let escaped = strEscape E key in
                     if leadingQuote then drop 1 escaped else escaped))
      in r @ '']'')"

subsection \<open>The completion of a buffer\<close>

text \<open>What \<^verbatim>\<open>onAutocomplete\<close> returns: \<^verbatim>\<open>undefined\<close>, an array of strings, or a string.\<close>

datatype completion = Undefined | Keys "string list" | Text string

definition preview :: "('n, 'w) env \<Rightarrow> string \<Rightarrow> (completion, 'w) io" where
  "preview E buffer =
     bindE (oneLineEval E buffer)
       (\<lambda>t. ret (case t of None \<Rightarrow> Undefined | Some x \<Rightarrow> Text x))"

text \<open>Lines 367 to 374, for \<^verbatim>\<open>keys\<close> that are defined.\<close>

definition filtered ::
  "('n, 'w) env \<Rightarrow> string list \<Rightarrow> 'n literal_value option \<Rightarrow> (completion, 'w) io" where
  "filtered E keys f = bindE (liftE (filterKeys E keys f)) (\<lambda>ks. ret (Keys ks))"

text \<open>Lines 301 to 365 and their way to the end of the function.\<close>

definition completeMember ::
  "('n, 'w) env \<Rightarrow> string \<Rightarrow> 'n expr \<Rightarrow> bool \<Rightarrow> 'n expr \<Rightarrow> (completion, 'w) io" where
  "completeMember E buffer obj computed prop =
     (case memberFilter computed prop of
        (f, leadingQuote) \<Rightarrow>
          bindE (receiverObject E (slice buffer (node_start obj) (node_end obj)))
            (\<lambda>r. case r of
               None \<Rightarrow> ret Undefined
             | Some evaluateResult \<Rightarrow>
                 bindE (roundTrip (Runtime_getProperties E (objectId (result evaluateResult))))
                   (\<lambda>props.
                      let keys = propertyKeys props in
                      if keysInclude keys f then preview E buffer
                      else filtered E
                             (if computed then map (bracketKey E leadingQuote) keys
                              else filter (isIdentifier E) keys) f)))"

text \<open>
  \<^verbatim>\<open>onAutocomplete\<close> (lines 150 to 377). Reading \<^verbatim>\<open>statement.type\<close> throws when the
  program has no statement. For a call expression, a \<^verbatim>\<open>c\<close> that is found is returned;
  otherwise \<^verbatim>\<open>keys\<close> is still \<^verbatim>\<open>undefined\<close> at line 367 and the preview is returned.
\<close>

definition onAutocomplete :: "('n, 'w) env \<Rightarrow> string \<Rightarrow> (completion, 'w) io" where
  "onAutocomplete E buffer =
     (if length buffer = 0 then bindE (collectGlobalNames E) (\<lambda>keys. ret (Keys keys))
      else
        (case parseDammit E buffer of
           [] \<Rightarrow> throw TypeError
         | st # _ \<Rightarrow>
             (case st of
                ExpressionStatement e \<Rightarrow>
                  (case node e of
                     Identifier n \<Rightarrow>
                       bindE (collectGlobalNames E)
                         (\<lambda>keys. let f = Some (StringValue n) in
                                  if keysInclude keys f then preview E buffer
                                  else filtered E keys f)
                   | CallExpression callee args \<Rightarrow>
                       if \<not> endsWith (trim buffer) '')'' then
                         bindE (completeCall E buffer callee args)
                           (\<lambda>c. case c of
                                   Some t \<Rightarrow> ret (Text t)
                                 | None \<Rightarrow> preview E buffer)
                       else preview E buffer
                   | MemberExpression obj computed prop \<Rightarrow>
                       completeMember E buffer obj computed prop
                   | _ \<Rightarrow> preview E buffer)
              | _ \<Rightarrow> ret Undefined)))"

section \<open>Definitions for the proofs\<close>

text \<open>An asynchronous function keeps the slots when, whatever it returns, the state it
  leaves has the \<^verbatim>\<open>last\<close> and \<^verbatim>\<open>lastError\<close> it found.\<close>

definition keepsSlots :: "('a, 'w) io \<Rightarrow> bool" where
  "keepsSlots m = (\<forall>s. REPL_last (snd (m s)) = REPL_last s \<and> REPL_lastError (snd (m s)) = REPL_lastError s)"

text \<open>
  The token that the specification gives a parameter pattern, written from its words: an
  identifier is itself, a default value gets the mark \<^verbatim>\<open>?\<close>, a rest parameter the mark
  \<^verbatim>\<open>...\<close>, an object pattern is the list of its field tokens in braces, an array pattern
  the list of its element tokens in brackets, and anything else is the placeholder
  \<^verbatim>\<open>?\<close>. \<open>elisionFree\<close> holds of a pattern in which no list has a \<open>NoPattern\<close>.
\<close>

fun elisionFree :: "pattern \<Rightarrow> bool" where
  "elisionFree (IdentifierPattern n) = True"
| "elisionFree (AssignmentPattern left) = elisionFree left"
| "elisionFree (ObjectPattern ps) = list_all elisionFree ps"
| "elisionFree (ArrayPattern ps) = list_all elisionFree ps"
| "elisionFree (RestElement arg) = elisionFree arg"
| "elisionFree OtherPattern = True"
| "elisionFree NoPattern = False"

fun specToken :: "pattern \<Rightarrow> string" where
  "specToken (IdentifierPattern n) = n"
| "specToken (AssignmentPattern left) = ''?'' @ specToken left"
| "specToken (ObjectPattern ps) = ''{ '' @ join '', '' (map specToken ps) @ '' }''"
| "specToken (ArrayPattern ps) = ''[ '' @ join '', '' (map specToken ps) @ '' ]''"
| "specToken (RestElement arg) = ''...'' @ specToken arg"
| "specToken OtherPattern = ''?''"
| "specToken NoPattern = ''?''"

text \<open>
  The words of the claim about bracket access: a non-negative integer literal is a string
  of decimal digits that is not empty; a quote character is the single quote, the
  double quote or the backtick; a string is free of quotes when none of its characters
  is one.
\<close>

definition isQuote :: "char \<Rightarrow> bool" where
  "isQuote c = (c \<in> set [CHR 0x27, CHR 0x22, CHR 0x60])"

definition integerLiteral :: "string \<Rightarrow> bool" where
  "integerLiteral key = (key \<noteq> [] \<and> list_all (\<lambda>c. c \<in> set ''0123456789'') key)"

definition quoteFree :: "string \<Rightarrow> bool" where
  "quoteFree t = list_all (\<lambda>c. \<not> isQuote c) t"

text \<open>
  A small environment for the concrete instances below. Its target process keeps the
  list of the evaluation requests it was sent; it throws a syntax error for the text
  \<^verbatim>\<open>{\<close> and gives the number one for any other. A number is held as the string that
  \<^verbatim>\<open>Number.prototype.toString\<close> gives for it: a string of up to fifteen digits without
  a leading zero converts to itself, \<^verbatim>\<open>1000000000000000000000\<close> to \<^verbatim>\<open>1e+21\<close>, and any
  other string to \<^verbatim>\<open>NaN\<close>. \<open>strEscape\<close> puts a string between single quotes, the form
  that lines 306 and 357 expect of it (the quote looked for is the single quote, and
  one character is cut off when it was typed). The global
  object has the names \<^verbatim>\<open>Object\<close> and \<^verbatim>\<open>Math\<close>; the tolerant parser knows the buffer
  \<^verbatim>\<open>Ma\<close>, one identifier.
\<close>

definition demoError :: remote_object where
  "demoError = \<lparr> type = ''object'', subtype = Some ''error'', className = Some ''SyntaxError'',
       description = Some ''SyntaxError: Unexpected end of input'', objectId = Some ''1'' \<rparr>"

definition demoNumber :: remote_object where
  "demoNumber = \<lparr> type = ''number'', subtype = None, className = None,
       description = Some ''1'', objectId = None \<rparr>"

definition demoEvaluate :: "request \<Rightarrow> request list \<Rightarrow> (error + evaluate_result) \<times> request list" where
  "demoEvaluate req w =
     (Inr (if expression req = ''{''
           then \<lparr> result = demoError, exceptionDetails = Some \<lparr> exception = Some demoError \<rparr> \<rparr>
           else \<lparr> result = demoNumber, exceptionDetails = None \<rparr>),
      w @ [req])"

definition demoToNumber :: "string \<Rightarrow> string" where
  "demoToNumber t =
     (if t = ''1000000000000000000000'' then ''1e+21''
      else if t \<noteq> [] \<and> length t \<le> 15 \<and> list_all (\<lambda>c. c \<in> set ''0123456789'') t \<and>
              (t = ''0'' \<or> hd t \<noteq> CHR ''0'')
      then t else ''NaN'')"

definition demoInspect :: "remote_object option \<Rightarrow> string" where
  "demoInspect v =
     (case v of None \<Rightarrow> ''undefined''
      | Some r \<Rightarrow> (case description r of None \<Rightarrow> ''undefined'' | Some d \<Rightarrow> d))"

definition demoParse :: "string \<Rightarrow> string statement list" where
  "demoParse b = (if b = ''Ma'' then [ExpressionStatement (Expr 0 2 (Identifier ''Ma''))] else [])"

definition demoEnv :: "(string, request list) env" where
  "demoEnv =
     \<lparr> asyncFunctionParses = (\<lambda>t. t \<in> set [''return {};'', ''({})'', ''return  {};'', ''( {})'']),
       toNumber = demoToNumber,
       numberToString = (\<lambda>n. n),
       numberTruthy = (\<lambda>n. n \<noteq> ''0'' \<and> n \<noteq> ''NaN''),
       globalOwnPropertyNames = (\<lambda>w. [''Object'', ''Math'']),
       inspect = demoInspect,
       inspectCompact = demoInspect,
       inspectValue = (\<lambda>r. demoInspect (Some r)),
       parseDammit = demoParse,
       acorn_parse = (\<lambda>t. None),
       processTopLevelAwait = (\<lambda>t. None),
       isRecoverableError = (\<lambda>t. t = ''{''),
       strEscape = (\<lambda>t. [CHR 0x27] @ t @ [CHR 0x27]),
       isIdentifier = (\<lambda>t. True),
       NativeFunctions = (\<lambda>owner. None),
       mainContextId = 1,
       Runtime_evaluate = demoEvaluate,
       Runtime_callFunctionOn = (\<lambda>sl v c w. (Inr (), w)),
       Runtime_getProperties = (\<lambda>i w. (Inr [], w)),
       Runtime_globalLexicalScopeNames = (\<lambda>w. (Inr [], w)) \<rparr>"

text \<open>
  A second environment, for the buffer \<^verbatim>\<open>a[1\<close>: the tolerant parser gives the member
  expression of the object \<^verbatim>\<open>a\<close> with the computed property \<^verbatim>\<open>1\<close>, a literal whose value
  is the number one; every evaluation gives one object, whose own properties are named
  \<^verbatim>\<open>1\<close>, \<^verbatim>\<open>2\<close> and \<^verbatim>\<open>10\<close>.
\<close>

definition demoObject :: remote_object where
  "demoObject = \<lparr> type = ''object'', subtype = None, className = Some ''Object'',
       description = Some ''Object'', objectId = Some ''2'' \<rparr>"

definition demoObjectEnv :: "(string, request list) env" where
  "demoObjectEnv = demoEnv
     \<lparr> parseDammit := (\<lambda>b. if b = ''a[1''
          then [ExpressionStatement (Expr 0 3 (MemberExpression (Expr 0 1 (Identifier ''a'')) True
                  (Expr 2 3 (Literal (NumberValue ''1'') ''1''))))]
          else []),
       Runtime_evaluate := (\<lambda>req w. (Inr \<lparr> result = demoObject, exceptionDetails = None \<rparr>, w @ [req])),
       Runtime_getProperties := (\<lambda>i w.
          (Inr [\<lparr> name = ''1'', isOwn = True, symbol = False \<rparr>,
                \<lparr> name = ''2'', isOwn = True, symbol = False \<rparr>,
                \<lparr> name = ''10'', isOwn = True, symbol = False \<rparr>], w)) \<rparr>"

definition demoState :: "request list state" where
  "demoState = \<lparr> REPL_last = None, REPL_lastError = None, REPL_inspectTarget = None,
       functionCompletionCache = (\<lambda>k. None), world = [] \<rparr>"

section \<open>The slots are kept\<close>

lemma keepsSlots_ret: "keepsSlots (ret x)"
  by (simp add: keepsSlots_def ret_def)

lemma keepsSlots_throw: "keepsSlots (throw e)"
  by (simp add: keepsSlots_def throw_def)

lemma keepsSlots_liftE: "keepsSlots (liftE r)"
  by (simp add: keepsSlots_def liftE_def)

lemma keepsSlots_roundTrip: "keepsSlots (roundTrip f)"
  by (simp add: keepsSlots_def roundTrip_def split: prod.splits)

lemma keepsSlots_bindE:
  assumes "keepsSlots m" and "\<And>a. keepsSlots (f a)"
  shows "keepsSlots (bindE m f)"
  unfolding keepsSlots_def
proof (intro allI)
  fix s
  obtain r s' where ms: "m s = (r, s')" by (cases "m s")
  from assms(1) ms have s': "REPL_last s' = REPL_last s \<and> REPL_lastError s' = REPL_lastError s"
    unfolding keepsSlots_def by (metis snd_conv)
  show "REPL_last (snd (bindE m f s)) = REPL_last s \<and>
        REPL_lastError (snd (bindE m f s)) = REPL_lastError s"
  proof (cases r)
    case (Inl e)
    with ms s' show ?thesis by (simp add: bindE_def)
  next
    case (Inr a)
    from assms(2) [of a] have "REPL_last (snd (f a s')) = REPL_last s' \<and>
        REPL_lastError (snd (f a s')) = REPL_lastError s'"
      unfolding keepsSlots_def by blast
    with ms s' Inr show ?thesis by (simp add: bindE_def)
  qed
qed

lemma keepsSlots_performEval: "keepsSlots (performEval E code a b)"
  by (simp add: performEval_def Let_def keepsSlots_roundTrip)

lemma keepsSlots_inspectTarget: "keepsSlots (callFunctionOn E InspectTarget v)"
  unfolding callFunctionOn_def
  by (intro keepsSlots_bindE keepsSlots_roundTrip) (simp add: keepsSlots_def assign_def)

lemma keepsSlots_read: "keepsSlots (\<lambda>s. (Inr (g s), s))"
  by (simp add: keepsSlots_def)

lemma keepsSlots_oneLineEval: "keepsSlots (oneLineEval E source)"
  unfolding oneLineEval_def
  by (intro keepsSlots_bindE keepsSlots_performEval)
     (auto split: option.splits intro!: keepsSlots_bindE keepsSlots_inspectTarget keepsSlots_ret keepsSlots_read)

lemma keepsSlots_preview: "keepsSlots (preview E buffer)"
  unfolding preview_def
  by (intro keepsSlots_bindE keepsSlots_oneLineEval keepsSlots_ret)

lemma keepsSlots_collectGlobalNames: "keepsSlots (collectGlobalNames E)"
  unfolding keepsSlots_def
proof (intro allI)
  fix s
  obtain r s' where rt: "roundTrip (Runtime_globalLexicalScopeNames E) s = (r, s')"
    by (cases "roundTrip (Runtime_globalLexicalScopeNames E) s")
  have "REPL_last s' = REPL_last s \<and> REPL_lastError s' = REPL_lastError s"
    using keepsSlots_roundTrip [of "Runtime_globalLexicalScopeNames E"] rt
    unfolding keepsSlots_def by (metis snd_conv)
  then show "REPL_last (snd (collectGlobalNames E s)) = REPL_last s \<and>
             REPL_lastError (snd (collectGlobalNames E s)) = REPL_lastError s"
    by (cases r) (simp_all add: collectGlobalNames_def Let_def rt)
qed

lemma keepsSlots_cacheSet: "keepsSlots (\<lambda>s. (r, cacheSet key v s))"
  by (simp add: keepsSlots_def cacheSet_def)

lemma keepsSlots_useEntry: "keepsSlots (useEntry key entry args buffer)"
  by (simp add: useEntry_def keepsSlots_throw keepsSlots_cacheSet split: option.splits list.splits)

lemma keepsSlots_completeFromDescription:
  "keepsSlots (completeFromDescription E buffer callee args r)"
  unfolding completeFromDescription_def
  by (auto split: option.splits sum.splits expr_node.splits
      intro!: keepsSlots_bindE keepsSlots_liftE keepsSlots_useEntry keepsSlots_throw
        keepsSlots_ret keepsSlots_cacheSet keepsSlots_performEval)

lemma keepsSlots_completeCall: "keepsSlots (completeCall E buffer callee args)"
  unfolding completeCall_def
proof (intro keepsSlots_bindE keepsSlots_performEval)
  fix r :: evaluate_result
  show "keepsSlots (case exceptionDetails r of
            Some _ \<Rightarrow> ret None
          | None \<Rightarrow>
              (\<lambda>s. case (case functionCompletionCache s (objectId (result r)) of
                            None \<Rightarrow> None
                          | Some hit \<Rightarrow> finishParams args buffer hit) of
                      Some c \<Rightarrow> (Inr (Some c), s)
                    | None \<Rightarrow> completeFromDescription E buffer callee args (result r) s))"
    using keepsSlots_completeFromDescription [of E buffer callee args "result r"]
    by (auto simp: ret_def keepsSlots_def split: option.splits)
qed

lemma keepsSlots_receiverObject: "keepsSlots (receiverObject E src)"
  unfolding receiverObject_def
  by (auto split: option.splits intro!: keepsSlots_bindE keepsSlots_performEval keepsSlots_ret)

lemma keepsSlots_filtered: "keepsSlots (filtered E keys f)"
  unfolding filtered_def
  by (intro keepsSlots_bindE keepsSlots_liftE keepsSlots_ret)

lemma keepsSlots_completeMember: "keepsSlots (completeMember E buffer obj computed prop)"
  unfolding completeMember_def
  by (auto simp: Let_def split: option.splits prod.splits
      intro!: keepsSlots_bindE keepsSlots_receiverObject keepsSlots_ret keepsSlots_roundTrip
        keepsSlots_preview keepsSlots_filtered)

lemma keepsSlots_onAutocomplete: "keepsSlots (onAutocomplete E buffer)"
  unfolding onAutocomplete_def
  by (auto simp: Let_def split: list.splits statement.splits expr_node.splits option.splits
      intro!: keepsSlots_bindE keepsSlots_collectGlobalNames keepsSlots_ret keepsSlots_throw
        keepsSlots_preview keepsSlots_filtered keepsSlots_completeCall keepsSlots_completeMember)

section \<open>The evaluation request\<close>

text \<open>
  Claim C3. \<^verbatim>\<open>performEval\<close> sends one request to \<^verbatim>\<open>Runtime.evaluate\<close>, and
  \<^verbatim>\<open>generatePreview\<close> is true in it. In best-effort mode \<^verbatim>\<open>silent\<close> and
  \<^verbatim>\<open>throwOnSideEffect\<close> are true and the timeout is 500; in direct mode both are false
  and the timeout is \<^verbatim>\<open>undefined\<close>.
\<close>

theorem performEval_request:
  "performEval E code awaitP True =
     roundTrip (Runtime_evaluate E
       \<lparr> expression = wrapObjectLiteralExpressionIfNeeded E code, generatePreview = True,
         awaitPromise = awaitP, silent = True, throwOnSideEffect = True,
         timeout = Some 500, executionContextId = mainContextId E \<rparr>)
   \<and> performEval E code awaitP False =
     roundTrip (Runtime_evaluate E
       \<lparr> expression = wrapObjectLiteralExpressionIfNeeded E code, generatePreview = True,
         awaitPromise = awaitP, silent = False, throwOnSideEffect = False,
         timeout = None, executionContextId = mainContextId E \<rparr>)"
  by (simp add: performEval_def Let_def)

theorem performEval_request_witness:
  "world (snd (performEval demoEnv ''{}'' False True demoState)) =
     [\<lparr> expression = ''({})'', generatePreview = True, awaitPromise = False, silent = True,
        throwOnSideEffect = True, timeout = Some 500, executionContextId = 1 \<rparr>]
   \<and> world (snd (performEval demoEnv ''{}'' False False demoState)) =
     [\<lparr> expression = ''({})'', generatePreview = True, awaitPromise = False, silent = False,
        throwOnSideEffect = False, timeout = None, executionContextId = 1 \<rparr>]"
  using performEval_request [of demoEnv "''{}''" False]
  by (simp add: roundTrip_def demoEnv_def demoEvaluate_def demoState_def
      wrapObjectLiteralExpressionIfNeeded_def braceShape_def startsWith_def isWhiteSpace_def)

section \<open>A line that needs another line\<close>

text \<open>
  Claim C1. Let \<open>line\<close> be the text that \<^verbatim>\<open>onLine\<close> evaluates for a submitted line: the
  line itself, or what the rewrite of a top-level \<^verbatim>\<open>await\<close> made of it. If the direct
  evaluation of \<open>line\<close> comes back with \<^verbatim>\<open>exceptionDetails\<close>, and \<^verbatim>\<open>isRecoverableError\<close>
  holds of \<open>line\<close> after \<^verbatim>\<open>wrapObjectLiteralExpressionIfNeeded\<close>, then \<^verbatim>\<open>onLine\<close> returns
  \<^verbatim>\<open>IO.kNeedsAnotherLine\<close>, in the state the evaluation left, and \<^verbatim>\<open>REPL.last\<close> and
  \<^verbatim>\<open>REPL.lastError\<close> are what they were before the line was submitted.
\<close>

theorem onLine_needs_another_line:
  assumes "onLine_rewrite E submitted = (line, awaited)"
    and "performEval E line awaited False s = (Inr r, s')"
    and "exceptionDetails r = Some details"
    and "isRecoverableError E (wrapObjectLiteralExpressionIfNeeded E line)"
  shows "onLine E submitted s = (Inr kNeedsAnotherLine, s') \<and>
         REPL_last s' = REPL_last s \<and> REPL_lastError s' = REPL_lastError s"
proof -
  have "onLine_result E line r s' = (Inr kNeedsAnotherLine, s')"
    using assms(3,4) by (simp add: onLine_result_def ret_def)
  then have "onLine E submitted s = (Inr kNeedsAnotherLine, s')"
    using assms(1,2) by (simp add: onLine_def bindE_def)
  moreover have "REPL_last s' = REPL_last s \<and> REPL_lastError s' = REPL_lastError s"
    using keepsSlots_performEval [of E line awaited False] assms(2)
    unfolding keepsSlots_def by (metis snd_conv)
  ultimately show ?thesis by simp
qed

lemma demo_eval_brace:
  "performEval demoEnv ''{'' False False demoState =
     (Inr \<lparr> result = demoError, exceptionDetails = Some \<lparr> exception = Some demoError \<rparr> \<rparr>,
      demoState \<lparr> world := [\<lparr> expression = ''{'', generatePreview = True, awaitPromise = False,
         silent = False, throwOnSideEffect = False, timeout = None, executionContextId = 1 \<rparr>] \<rparr>)"
  by (simp add: performEval_def roundTrip_def demoEnv_def demoEvaluate_def demoState_def
      wrapObjectLiteralExpressionIfNeeded_def braceShape_def startsWith_def isWhiteSpace_def)

theorem onLine_needs_another_line_witness:
  "onLine demoEnv ''{'' demoState =
     (Inr kNeedsAnotherLine,
      demoState \<lparr> world := [\<lparr> expression = ''{'', generatePreview = True, awaitPromise = False,
         silent = False, throwOnSideEffect = False, timeout = None, executionContextId = 1 \<rparr>] \<rparr>)"
proof -
  have 1: "onLine_rewrite demoEnv ''{'' = (''{'', False)"
    by (simp add: onLine_rewrite_def startsWith_def)
  have 3: "exceptionDetails \<lparr> result = demoError, exceptionDetails = Some \<lparr> exception = Some demoError \<rparr> \<rparr>
             = Some \<lparr> exception = Some demoError \<rparr>"
    by simp
  have 4: "isRecoverableError demoEnv (wrapObjectLiteralExpressionIfNeeded demoEnv ''{'')"
    by (simp add: demoEnv_def wrapObjectLiteralExpressionIfNeeded_def braceShape_def
        startsWith_def isWhiteSpace_def)
  from onLine_needs_another_line [OF 1 demo_eval_brace 3 4] show ?thesis by simp
qed

section \<open>A line without await\<close>

text \<open>\<open>str_includes s t\<close> is the test that \<open>t\<close> occurs in \<open>s\<close>.\<close>

lemma startsWith_append: "startsWith (t @ post) t"
  by (simp add: startsWith_def)

lemma startsWith_split: "startsWith s t \<Longrightarrow> s = t @ drop (length t) s"
  unfolding startsWith_def by (metis append_take_drop_id)

lemma str_includes_append: "str_includes (pre @ t @ post) t"
proof (induction pre)
  case Nil
  show ?case
  proof (cases "t @ post")
    case Nil
    then show ?thesis by simp
  next
    case (Cons c cs)
    have "startsWith (t @ post) t" by (rule startsWith_append)
    with Cons show ?thesis by simp
  qed
next
  case (Cons p pre)
  then show ?case by simp
qed

lemma str_includes_iff: "str_includes s t \<longleftrightarrow> (\<exists>pre post. s = pre @ t @ post)"
proof
  assume "str_includes s t"
  then show "\<exists>pre post. s = pre @ t @ post"
  proof (induction s)
    case Nil
    then show ?case by simp
  next
    case (Cons c cs)
    from Cons.prems have "startsWith (c # cs) t \<or> str_includes cs t" by simp
    then show ?case
    proof
      assume "startsWith (c # cs) t"
      then have "c # cs = [] @ t @ drop (length t) (c # cs)"
        using startsWith_split by fastforce
      then show ?thesis by blast
    next
      assume "str_includes cs t"
      with Cons.IH obtain pre post where "cs = pre @ t @ post" by blast
      then have "c # cs = (c # pre) @ t @ post" by simp
      then show ?thesis by blast
    qed
  qed
next
  assume "\<exists>pre post. s = pre @ t @ post"
  then show "str_includes s t"
    using str_includes_append by blast
qed

lemma wrap_update [simp]:
  "wrapObjectLiteralExpressionIfNeeded (E\<lparr>processTopLevelAwait := f\<rparr>) code =
   wrapObjectLiteralExpressionIfNeeded E code"
  by (simp add: wrapObjectLiteralExpressionIfNeeded_def)

lemma performEval_update [simp]:
  "performEval (E\<lparr>processTopLevelAwait := f\<rparr>) code a b = performEval E code a b"
  by (simp add: performEval_def)

lemma onLine_result_update [simp]:
  "onLine_result (E\<lparr>processTopLevelAwait := f\<rparr>) line r = onLine_result E line r"
  by (simp add: onLine_result_def callFunctionOn_def Let_def split: option.splits)

lemma onLine_direct:
  assumes "\<not> str_includes line ''await''"
  shows "onLine E line = bindE (performEval E line False False) (onLine_result E line)"
proof -
  have "onLine_rewrite E line = (line, False)"
    using assms by (simp add: onLine_rewrite_def)
  then show ?thesis by (simp add: onLine_def)
qed

text \<open>
  Claim C10. For a line that does not contain \<^verbatim>\<open>await\<close>, \<^verbatim>\<open>onLine\<close> sends the line,
  changed by nothing but \<^verbatim>\<open>wrapObjectLiteralExpressionIfNeeded\<close>, in a direct request
  whose \<^verbatim>\<open>awaitPromise\<close> is false, and goes on with the result; and
  \<^verbatim>\<open>processTopLevelAwait\<close> plays no part: with any other function in its place,
  \<^verbatim>\<open>onLine\<close> is the same function of the state.
\<close>

theorem onLine_without_await:
  assumes "\<not> str_includes line ''await''"
  shows "onLine E line =
           bindE (roundTrip (Runtime_evaluate E
                    \<lparr> expression = wrapObjectLiteralExpressionIfNeeded E line,
                      generatePreview = True, awaitPromise = False, silent = False,
                      throwOnSideEffect = False, timeout = None,
                      executionContextId = mainContextId E \<rparr>))
             (onLine_result E line)
         \<and> onLine (E\<lparr>processTopLevelAwait := f\<rparr>) line = onLine E line"
proof -
  have "onLine_result (E\<lparr>processTopLevelAwait := f\<rparr>) line = onLine_result E line"
    by (rule ext) simp
  then have "onLine (E\<lparr>processTopLevelAwait := f\<rparr>) line = onLine E line"
    by (simp add: onLine_direct [OF assms])
  moreover have "performEval E line False False =
      roundTrip (Runtime_evaluate E
        \<lparr> expression = wrapObjectLiteralExpressionIfNeeded E line,
          generatePreview = True, awaitPromise = False, silent = False,
          throwOnSideEffect = False, timeout = None,
          executionContextId = mainContextId E \<rparr>)"
    by (simp add: performEval_def)
  ultimately show ?thesis
    by (simp add: onLine_direct [OF assms])
qed

theorem onLine_without_await_witness:
  "onLine demoEnv ''1'' demoState =
     (Inr (Rendered ''1''),
      demoState \<lparr> REPL_last := Some demoNumber,
        world := [\<lparr> expression = ''1'', generatePreview = True, awaitPromise = False,
         silent = False, throwOnSideEffect = False, timeout = None, executionContextId = 1 \<rparr>] \<rparr>)"
proof -
  have "\<not> str_includes ''1'' ''await''"
    by (simp add: startsWith_def)
  from onLine_without_await [OF this, of demoEnv] show ?thesis
    by (simp add: bindE_def roundTrip_def onLine_result_def callFunctionOn_def assign_def
        demoEnv_def demoEvaluate_def demoState_def demoNumber_def demoInspect_def
        wrapObjectLiteralExpressionIfNeeded_def braceShape_def startsWith_def isWhiteSpace_def)
qed

section \<open>The slots and the speculative paths\<close>

text \<open>
  Claim C2. Neither \<^verbatim>\<open>onAutocomplete\<close> nor \<^verbatim>\<open>oneLineEval\<close>, for any buffer and from any
  state, changes \<^verbatim>\<open>REPL.last\<close> or \<^verbatim>\<open>REPL.lastError\<close>, whatever they return (a
  completion, \<^verbatim>\<open>undefined\<close>, a thrown error); nor does \<^verbatim>\<open>performEval\<close> in either mode. The
  two assignments are in \<^verbatim>\<open>onLine\<close> alone, after its direct evaluation has come back.
  (\<^verbatim>\<open>oneLineEval\<close> does write a slot of its own, \<^verbatim>\<open>REPL._inspectTarget\<close>.)
\<close>

theorem speculative_paths_keep_slots:
  "REPL_last (snd (onAutocomplete E buffer s)) = REPL_last s \<and>
   REPL_lastError (snd (onAutocomplete E buffer s)) = REPL_lastError s \<and>
   REPL_last (snd (oneLineEval E source s)) = REPL_last s \<and>
   REPL_lastError (snd (oneLineEval E source s)) = REPL_lastError s \<and>
   REPL_last (snd (performEval E code awaitP bestEffort s)) = REPL_last s \<and>
   REPL_lastError (snd (performEval E code awaitP bestEffort s)) = REPL_lastError s"
  using keepsSlots_onAutocomplete [of E buffer] keepsSlots_oneLineEval [of E source]
    keepsSlots_performEval [of E code awaitP bestEffort]
  unfolding keepsSlots_def by blast

theorem speculative_paths_keep_slots_witness:
  "REPL_last (snd (onAutocomplete demoEnv ''Ma'' (demoState\<lparr>REPL_last := Some demoNumber\<rparr>)))
     = Some demoNumber \<and>
   REPL_lastError (snd (oneLineEval demoEnv ''{'' (demoState\<lparr>REPL_lastError := Some demoError\<rparr>)))
     = Some demoError"
  using speculative_paths_keep_slots [where E = demoEnv and buffer = "''Ma''"
      and s = "demoState\<lparr>REPL_last := Some demoNumber\<rparr>"]
    speculative_paths_keep_slots [where E = demoEnv and source = "''{''"
      and s = "demoState\<lparr>REPL_lastError := Some demoError\<rparr>"]
  by simp

section \<open>The filter\<close>

lemma keepStarting_string:
  "keepStarting E (StringValue P) keys = Inr (filter (\<lambda>k. startsWith k P) keys)"
  by (induction keys) (simp_all add: keyStartsWith_def)

text \<open>
  For a list of candidates and a filter that is a string \<open>P\<close>, not empty, lines 367 to
  374 give the candidates that start with \<open>P\<close>, in their order, each without its first
  \<open>length P\<close> characters: a string is returned exactly when it is such a remainder of a
  candidate that started with \<open>P\<close>.
\<close>

lemma filter_strips_prefix:
  assumes "P \<noteq> []"
  shows "filtered E keys (Some (StringValue P)) s =
           (Inr (Keys (map (drop (length P)) (filter (\<lambda>k. startsWith k P) keys))), s)
         \<and> (\<forall>r. r \<in> set (map (drop (length P)) (filter (\<lambda>k. startsWith k P) keys)) \<longleftrightarrow>
                (\<exists>k. k \<in> set keys \<and> startsWith k P \<and> r = drop (length P) k))"
proof -
  have "filterKeys E keys (Some (StringValue P)) =
          Inr (map (drop (length P)) (filter (\<lambda>k. startsWith k P) keys))"
    using assms by (simp add: filterKeys_def truthy_def keepStarting_string sliceFilter_def)
  then show ?thesis
    by (auto simp: filtered_def bindE_def liftE_def ret_def)
qed

lemma filter_strips_prefix_example:
  "filtered demoEnv [''Math'', ''Map'', ''x''] (Some (StringValue ''Ma'')) demoState =
     (Inr (Keys [''th'', ''p'']), demoState)"
proof -
  have "''Ma'' \<noteq> []" by simp
  from filter_strips_prefix [OF this, of demoEnv "[''Math'', ''Map'', ''x'']" demoState]
  show ?thesis by (simp add: startsWith_def)
qed

text \<open>
  The filter is not always a string. For a bracket access whose property is a numeric
  literal, line 305 makes the filter the number: \<^verbatim>\<open>k.startsWith(filter)\<close> compares with
  the string of the number, but \<^verbatim>\<open>filter.length\<close> is \<^verbatim>\<open>undefined\<close>, and
  \<^verbatim>\<open>k.slice(undefined)\<close> is the whole of \<open>k\<close>. The candidates that start with the string
  of the number are kept, and nothing is removed from them.
\<close>

lemma keepStarting_number:
  "keepStarting E (NumberValue n) keys = Inr (filter (\<lambda>k. startsWith k (numberToString E n)) keys)"
  by (induction keys) (simp_all add: keyStartsWith_def)

lemma filter_number_not_stripped:
  assumes "numberTruthy E n"
  shows "filtered E keys (Some (NumberValue n)) s =
           (Inr (Keys (filter (\<lambda>k. startsWith k (numberToString E n)) keys)), s)"
proof -
  have "filterKeys E keys (Some (NumberValue n)) =
          Inr (filter (\<lambda>k. startsWith k (numberToString E n)) keys)"
    using assms by (simp add: filterKeys_def truthy_def keepStarting_number sliceFilter_def)
  then show ?thesis
    by (simp add: filtered_def bindE_def liftE_def ret_def)
qed

lemma demoObject_receiver:
  "receiverObject demoObjectEnv ''a'' demoState =
     (Inr (Some \<lparr> result = demoObject, exceptionDetails = None \<rparr>),
      demoState\<lparr>world := [\<lparr> expression = ''a'', generatePreview = True, awaitPromise = False,
         silent = True, throwOnSideEffect = True, timeout = Some 500, executionContextId = 1 \<rparr>]\<rparr>)"
  by (simp add: receiverObject_def performEval_def bindE_def ret_def roundTrip_def
      demoObjectEnv_def demoEnv_def demoState_def demoObject_def
      wrapObjectLiteralExpressionIfNeeded_def braceShape_def startsWith_def isWhiteSpace_def)

lemma demoObject_keys:
  "map (bracketKey demoObjectEnv False) [''1'', ''2'', ''10''] = [''1]'', ''2]'', ''10]'']"
  by (simp add: bracketKey_def Let_def demoObjectEnv_def demoEnv_def demoToNumber_def)

text \<open>
  Claim C4 says that every string returned for a filter prefix is a candidate without
  the prefix. For the buffer \<^verbatim>\<open>a[1\<close>, where the object has the properties \<^verbatim>\<open>1\<close>, \<^verbatim>\<open>2\<close>
  and \<^verbatim>\<open>10\<close>, the candidates are \<^verbatim>\<open>1]\<close>, \<^verbatim>\<open>2]\<close> and \<^verbatim>\<open>10]\<close>, and the filter is the
  number one. The completion is \<^verbatim>\<open>1]\<close> and \<^verbatim>\<open>10]\<close>, whole: the prefix \<^verbatim>\<open>1\<close> that the
  buffer already has is not removed, where the claim has \<^verbatim>\<open>]\<close> and \<^verbatim>\<open>0]\<close>.
\<close>

theorem numeric_filter_not_stripped:
  "fst (onAutocomplete demoObjectEnv ''a[1'' demoState) = Inr (Keys [''1]'', ''10]''])"
proof -
  have parse: "parseDammit demoObjectEnv ''a[1'' =
      [ExpressionStatement (Expr 0 3 (MemberExpression (Expr 0 1 (Identifier ''a'')) True
         (Expr 2 3 (Literal (NumberValue ''1'') ''1''))))]"
    by (simp add: demoObjectEnv_def)
  have truthy1: "numberTruthy demoObjectEnv ''1''"
    by (simp add: demoObjectEnv_def demoEnv_def)
  have str: "numberToString demoObjectEnv ''1'' = ''1''"
    by (simp add: demoObjectEnv_def demoEnv_def)
  have props: "Runtime_getProperties demoObjectEnv i w =
      (Inr [\<lparr> name = ''1'', isOwn = True, symbol = False \<rparr>,
            \<lparr> name = ''2'', isOwn = True, symbol = False \<rparr>,
            \<lparr> name = ''10'', isOwn = True, symbol = False \<rparr>], w)" for i w
    by (simp add: demoObjectEnv_def)
  have "completeMember demoObjectEnv ''a[1'' (Expr 0 1 (Identifier ''a'')) True
          (Expr 2 3 (Literal (NumberValue ''1'') ''1'')) demoState
        = filtered demoObjectEnv [''1]'', ''2]'', ''10]''] (Some (NumberValue ''1''))
            (demoState\<lparr>world := [\<lparr> expression = ''a'', generatePreview = True, awaitPromise = False,
         silent = True, throwOnSideEffect = True, timeout = Some 500, executionContextId = 1 \<rparr>]\<rparr>)"
    using demoObject_keys
    by (simp add: completeMember_def memberFilter_def slice_def demoObject_receiver bindE_def
        roundTrip_def props propertyKeys_def keysInclude_def Let_def startsWith_def)
  then show ?thesis
    using parse
    by (simp add: onAutocomplete_def filter_number_not_stripped [OF truthy1] str startsWith_def)
qed

section \<open>The object literal in parentheses\<close>

text \<open>The shape that \<open>braceShape\<close> tests: the code is white space, an opening brace and
  anything, and it is anything, a closing brace and white space.\<close>

lemma dropWhile_startsWith:
  assumes "\<not> P c"
  shows "startsWith (dropWhile P xs) [c] \<longleftrightarrow>
           (\<exists>ws rest. xs = ws @ c # rest \<and> (\<forall>x \<in> set ws. P x))"
proof
  assume "startsWith (dropWhile P xs) [c]"
  then obtain rest where "dropWhile P xs = c # rest"
    by (cases "dropWhile P xs") (simp_all add: startsWith_def)
  then have "xs = takeWhile P xs @ c # rest"
    by (metis takeWhile_dropWhile_id)
  moreover have "\<forall>x \<in> set (takeWhile P xs). P x"
    by (blast dest: set_takeWhileD)
  ultimately show "\<exists>ws rest. xs = ws @ c # rest \<and> (\<forall>x \<in> set ws. P x)"
    by blast
next
  assume "\<exists>ws rest. xs = ws @ c # rest \<and> (\<forall>x \<in> set ws. P x)"
  then obtain ws rest where "xs = ws @ c # rest" and "\<forall>x \<in> set ws. P x"
    by blast
  with assms have "dropWhile P xs = c # rest"
    by (simp add: dropWhile_append)
  then show "startsWith (dropWhile P xs) [c]"
    by (simp add: startsWith_def)
qed

lemma braceShape_iff:
  "braceShape code \<longleftrightarrow>
     (\<exists>ws rest. code = ws @ ''{'' @ rest \<and> (\<forall>c \<in> set ws. isWhiteSpace c)) \<and>
     (\<exists>rest ws. code = rest @ ''}'' @ ws \<and> (\<forall>c \<in> set ws. isWhiteSpace c))"
proof -
  have open_brace: "\<not> isWhiteSpace (CHR ''{'')" and close_brace: "\<not> isWhiteSpace (CHR ''}'')"
    by (simp_all add: isWhiteSpace_def)
  have "(\<exists>ws rest. rev code = ws @ CHR ''}'' # rest \<and> (\<forall>c \<in> set ws. isWhiteSpace c)) \<longleftrightarrow>
        (\<exists>rest ws. code = rest @ ''}'' @ ws \<and> (\<forall>c \<in> set ws. isWhiteSpace c))"
  proof
    assume "\<exists>ws rest. rev code = ws @ CHR ''}'' # rest \<and> (\<forall>c \<in> set ws. isWhiteSpace c)"
    then obtain ws rest where "rev code = ws @ CHR ''}'' # rest" and ws: "\<forall>c \<in> set ws. isWhiteSpace c"
      by blast
    then have "rev (rev code) = rev (ws @ CHR ''}'' # rest)"
      by simp
    then have "code = rev rest @ ''}'' @ rev ws"
      by simp
    moreover from ws have "\<forall>c \<in> set (rev ws). isWhiteSpace c"
      by simp
    ultimately show "\<exists>rest ws. code = rest @ ''}'' @ ws \<and> (\<forall>c \<in> set ws. isWhiteSpace c)"
      by blast
  next
    assume "\<exists>rest ws. code = rest @ ''}'' @ ws \<and> (\<forall>c \<in> set ws. isWhiteSpace c)"
    then obtain rest ws where "code = rest @ ''}'' @ ws" and ws: "\<forall>c \<in> set ws. isWhiteSpace c"
      by blast
    then have "rev code = rev ws @ CHR ''}'' # rev rest"
      by simp
    moreover from ws have "\<forall>c \<in> set (rev ws). isWhiteSpace c"
      by simp
    ultimately show "\<exists>ws rest. rev code = ws @ CHR ''}'' # rest \<and> (\<forall>c \<in> set ws. isWhiteSpace c)"
      by blast
  qed
  then show ?thesis
    unfolding braceShape_def
    using dropWhile_startsWith [of isWhiteSpace "CHR ''{''" code, OF open_brace]
      dropWhile_startsWith [of isWhiteSpace "CHR ''}''" "rev code", OF close_brace]
    by simp
qed

text \<open>White space is more than the space: the no-break space before a brace is
  skipped as well.\<close>

lemma braceShape_nbsp: "braceShape (CHR 0xA0 # ''{}'')"
  by (simp add: braceShape_def startsWith_def isWhiteSpace_def)

text \<open>
  Claim C5, amended. For a code of the brace shape, that is, one that begins with
  \<^verbatim>\<open>{\<close> after any leading white space and ends with \<^verbatim>\<open>}\<close> before any trailing white
  space: when \<^verbatim>\<open>return code;\<close> parses as the body of a function and the code in
  parentheses parses too, the code in parentheses is returned; otherwise the code is
  returned as it is. A code that is not of the brace shape is returned as it is.
\<close>

theorem wrap_object_literal:
  "(braceShape code \<and> asyncFunctionParses E (''return '' @ code @ '';'') \<and>
      asyncFunctionParses E (''('' @ code @ '')'')
      \<longrightarrow> wrapObjectLiteralExpressionIfNeeded E code = ''('' @ code @ '')'') \<and>
   (braceShape code \<and> \<not> (asyncFunctionParses E (''return '' @ code @ '';'') \<and>
      asyncFunctionParses E (''('' @ code @ '')''))
      \<longrightarrow> wrapObjectLiteralExpressionIfNeeded E code = code) \<and>
   (\<not> braceShape code \<longrightarrow> wrapObjectLiteralExpressionIfNeeded E code = code)"
  by (simp add: wrapObjectLiteralExpressionIfNeeded_def Let_def)

lemma demo_parses:
  "asyncFunctionParses demoEnv t = (t \<in> set [''return {};'', ''({})'', ''return  {};'', ''( {})''])"
  by (simp add: demoEnv_def)

theorem wrap_object_literal_witness:
  "wrapObjectLiteralExpressionIfNeeded demoEnv ''{}'' = ''({})'' \<and>
   wrapObjectLiteralExpressionIfNeeded demoEnv ''{;}'' = ''{;}'' \<and>
   wrapObjectLiteralExpressionIfNeeded demoEnv ''1'' = ''1''"
proof -
  have a: "braceShape ''{}''" and b: "braceShape ''{;}''" and c: "\<not> braceShape ''1''"
    by (simp_all add: braceShape_def startsWith_def isWhiteSpace_def)
  have d: "asyncFunctionParses demoEnv (''return '' @ ''{}'' @ '';'')"
    and e: "asyncFunctionParses demoEnv (''('' @ ''{}'' @ '')'')"
    and f: "\<not> asyncFunctionParses demoEnv (''return '' @ ''{;}'' @ '';'')"
    by (simp_all add: demo_parses)
  from wrap_object_literal [of "''{}''" demoEnv] wrap_object_literal [of "''{;}''" demoEnv]
    wrap_object_literal [of "''1''" demoEnv] a b c d e f
  show ?thesis by simp
qed

text \<open>
  Claim C5 as it is stated has the shape begin with the brace itself, so that a text
  that begins with a space is not of the shape and is returned unchanged. The text of a
  space and \<^verbatim>\<open>{}\<close> does not begin with a brace, and is returned in parentheses.
\<close>

theorem wrap_padded_counterexample:
  "\<not> startsWith '' {}'' ''{'' \<and> wrapObjectLiteralExpressionIfNeeded demoEnv '' {}'' = ''( {})''"
  by (simp add: wrapObjectLiteralExpressionIfNeeded_def braceShape_def startsWith_def
      isWhiteSpace_def demo_parses)

section \<open>The key of a bracket access\<close>

lemma digit_not_quote: "c \<in> set ''0123456789'' \<Longrightarrow> \<not> isQuote c"
  by (auto simp: isQuote_def)

lemma integerLiteral_quoteFree:
  assumes "integerLiteral key"
  shows "quoteFree (key @ '']'')"
proof -
  from assms have "list_all (\<lambda>c. c \<in> set ''0123456789'') key"
    by (simp only: integerLiteral_def)
  then have "\<forall>c \<in> set key. c \<in> set ''0123456789''"
    by (simp only: list_all_iff)
  then have "\<forall>c \<in> set key. \<not> isQuote c"
    using digit_not_quote by blast
  then have "list_all (\<lambda>c. \<not> isQuote c) key"
    by (simp only: list_all_iff)
  moreover have "\<not> isQuote (CHR '']'')"
    by (simp add: isQuote_def)
  ultimately show ?thesis
    by (simp add: quoteFree_def)
qed

text \<open>
  Claim C7, amended. When no opening single quote was typed and the key is the string
  of its own numeric value (\<^verbatim>\<open>`${+key}` === key\<close>), the candidate is the key and the
  closing bracket; if moreover the key is a non-negative integer literal, the candidate
  has no quote character in it, at either end or elsewhere. When no quote was
  typed and the key is not the string of its numeric value, the candidate is the
  escaped key and the bracket. When an opening single quote was typed, the candidate is
  the escaped key without its first character, and the bracket: it keeps the closing
  quote of the escaped key.
\<close>

theorem bracketKey_cases:
  "(\<not> leadingQuote \<and> numberToString E (toNumber E key) = key
      \<longrightarrow> bracketKey E leadingQuote key = key @ '']'') \<and>
   (integerLiteral key \<and> \<not> leadingQuote \<and> numberToString E (toNumber E key) = key
      \<longrightarrow> quoteFree (bracketKey E leadingQuote key)) \<and>
   (\<not> leadingQuote \<and> numberToString E (toNumber E key) \<noteq> key
      \<longrightarrow> bracketKey E leadingQuote key = strEscape E key @ '']'') \<and>
   (leadingQuote \<longrightarrow> bracketKey E leadingQuote key = drop 1 (strEscape E key) @ '']'')"
proof -
  have "quoteFree (bracketKey E leadingQuote key)"
    if "integerLiteral key" and "\<not> leadingQuote" and "numberToString E (toNumber E key) = key"
  proof -
    from that(2,3) have "bracketKey E leadingQuote key = key @ '']''"
      by (simp add: bracketKey_def Let_def)
    with integerLiteral_quoteFree [OF that(1)] show ?thesis by simp
  qed
  then show ?thesis
    by (simp add: bracketKey_def Let_def)
qed

theorem bracketKey_cases_witness:
  "bracketKey demoEnv False ''1'' = ''1]'' \<and> quoteFree (bracketKey demoEnv False ''1'')"
proof -
  have a: "numberToString demoEnv (toNumber demoEnv ''1'') = ''1''"
    by (simp add: demoEnv_def demoToNumber_def)
  have b: "integerLiteral ''1''"
    by (simp add: integerLiteral_def)
  from bracketKey_cases [of False demoEnv "''1''"] a b
  have e: "bracketKey demoEnv False ''1'' = ''1'' @ '']''"
    and q: "quoteFree (bracketKey demoEnv False ''1'')"
    by blast+
  from e q show ?thesis by simp
qed

text \<open>
  Claim C7 as it is stated fails in both ways, each time for a key that is a
  non-negative integer literal. With an opening quote typed, the candidate for the key
  \<^verbatim>\<open>1\<close> is \<^verbatim>\<open>1']\<close>: the key is followed by a quote. With no quote typed, the key
  \<^verbatim>\<open>1000000000000000000000\<close> has a numeric value whose string is \<^verbatim>\<open>1e+21\<close>, and its
  candidate is the key between quotes.
\<close>

theorem bracketKey_quote_counterexample:
  "integerLiteral ''1'' \<and>
   bracketKey demoEnv True ''1'' = ''1'' @ [CHR 0x27] @ '']'' \<and>
   \<not> quoteFree (bracketKey demoEnv True ''1'') \<and>
   integerLiteral ''1000000000000000000000'' \<and>
   bracketKey demoEnv False ''1000000000000000000000'' =
     [CHR 0x27] @ ''1000000000000000000000'' @ [CHR 0x27] @ '']'' \<and>
   \<not> quoteFree (bracketKey demoEnv False ''1000000000000000000000'')"
  by (simp add: bracketKey_def Let_def demoEnv_def demoToNumber_def integerLiteral_def
      quoteFree_def isQuote_def)

section \<open>The separator before the remaining parameters\<close>

lemma set_trim: "set (trim b) \<subseteq> set b"
proof -
  have "set (trim b) = set (dropWhile isWhiteSpace (rev (dropWhile isWhiteSpace b)))"
    by (simp add: trim_def)
  also have "\<dots> \<subseteq> set (rev (dropWhile isWhiteSpace b))"
    by (auto dest: set_dropWhileD)
  also have "\<dots> \<subseteq> set b"
    by (auto dest: set_dropWhileD)
  finally show ?thesis .
qed

lemma endsWith_single: "endsWith b [c] \<longleftrightarrow> b \<noteq> [] \<and> last b = c"
proof (cases b rule: rev_cases)
  case Nil
  then show ?thesis by (simp add: endsWith_def)
next
  case (snoc ys y)
  then show ?thesis by (auto simp: endsWith_def)
qed

lemma spaces_after_last:
  assumes "c \<in> set b"
  shows "int (length b) - (lastIndexOf b c + 1) > 0 \<longleftrightarrow> \<not> endsWith b [c]"
proof (cases b rule: rev_cases)
  case Nil
  with assms show ?thesis by simp
next
  case (snoc ys y)
  then show ?thesis using assms
    by (auto simp: lastIndexOf_def endsWith_single)
qed

text \<open>
  The two tests of the buffer, in words: the trimmed buffer ends in a comma and the
  buffer itself does not exactly when the buffer ends in a comma followed by white
  space, at least one character of it.
\<close>

lemma dropWhile_keeps_tail:
  assumes "\<not> P c"
  shows "\<exists>p. dropWhile P (pre @ c # ws) = p @ c # ws"
proof (induction pre)
  case Nil
  from assms have "dropWhile P ([] @ c # ws) = [] @ c # ws" by simp
  then show ?case by blast
next
  case (Cons x pre)
  show ?case
  proof (cases "P x")
    case True
    with Cons show ?thesis by simp
  next
    case False
    then have "dropWhile P ((x # pre) @ c # ws) = (x # pre) @ c # ws" by simp
    then show ?thesis by blast
  qed
qed

lemma endsWith_rev: "endsWith (rev xs) [c] \<longleftrightarrow> startsWith xs [c]"
  by (cases xs) (simp_all add: endsWith_single startsWith_def)

lemma endsWith_trim:
  assumes "\<not> isWhiteSpace c"
  shows "endsWith (trim b) [c] \<longleftrightarrow>
           (\<exists>pre ws. b = pre @ c # ws \<and> (\<forall>x \<in> set ws. isWhiteSpace x))"
proof -
  let ?X = "dropWhile isWhiteSpace (rev (dropWhile isWhiteSpace b))"
  have "endsWith (trim b) [c] \<longleftrightarrow> startsWith ?X [c]"
    unfolding trim_def by (rule endsWith_rev)
  also have "\<dots> \<longleftrightarrow> (\<exists>ws r. rev (dropWhile isWhiteSpace b) = ws @ c # r \<and>
                            (\<forall>x \<in> set ws. isWhiteSpace x))"
    by (rule dropWhile_startsWith [of isWhiteSpace c, OF assms])
  also have "\<dots> \<longleftrightarrow> (\<exists>pre ws. b = pre @ c # ws \<and> (\<forall>x \<in> set ws. isWhiteSpace x))"
  proof
    assume "\<exists>ws r. rev (dropWhile isWhiteSpace b) = ws @ c # r \<and> (\<forall>x \<in> set ws. isWhiteSpace x)"
    then obtain ws r where eq: "rev (dropWhile isWhiteSpace b) = ws @ c # r"
      and ws: "\<forall>x \<in> set ws. isWhiteSpace x"
      by blast
    from eq have "rev (rev (dropWhile isWhiteSpace b)) = rev (ws @ c # r)" by simp
    then have "dropWhile isWhiteSpace b = rev r @ c # rev ws" by simp
    then have "b = (takeWhile isWhiteSpace b @ rev r) @ c # rev ws"
      by (metis append_assoc takeWhile_dropWhile_id)
    moreover from ws have "\<forall>x \<in> set (rev ws). isWhiteSpace x" by simp
    ultimately show "\<exists>pre ws. b = pre @ c # ws \<and> (\<forall>x \<in> set ws. isWhiteSpace x)"
      by blast
  next
    assume "\<exists>pre ws. b = pre @ c # ws \<and> (\<forall>x \<in> set ws. isWhiteSpace x)"
    then obtain pre ws where b: "b = pre @ c # ws" and ws: "\<forall>x \<in> set ws. isWhiteSpace x"
      by blast
    from dropWhile_keeps_tail [of isWhiteSpace c pre ws, OF assms] b
    obtain p where "dropWhile isWhiteSpace b = p @ c # ws" by blast
    then have "rev (dropWhile isWhiteSpace b) = rev ws @ c # rev p" by simp
    moreover from ws have "\<forall>x \<in> set (rev ws). isWhiteSpace x" by simp
    ultimately show "\<exists>ws r. rev (dropWhile isWhiteSpace b) = ws @ c # r \<and>
                            (\<forall>x \<in> set ws. isWhiteSpace x)"
      by blast
  qed
  finally show ?thesis .
qed

lemma comma_then_white_space:
  "endsWith (trim b) '','' \<and> \<not> endsWith b '','' \<longleftrightarrow>
     (\<exists>pre ws. b = pre @ '','' @ ws \<and> ws \<noteq> [] \<and> (\<forall>x \<in> set ws. isWhiteSpace x))"
proof -
  have comma: "\<not> isWhiteSpace (CHR '','')"
    by (simp add: isWhiteSpace_def)
  show ?thesis
  proof
    assume a: "endsWith (trim b) '','' \<and> \<not> endsWith b '',''"
    then obtain pre ws where b: "b = pre @ CHR '','' # ws" and ws: "\<forall>x \<in> set ws. isWhiteSpace x"
      using endsWith_trim [OF comma, of b] by blast
    have "ws \<noteq> []"
    proof
      assume "ws = []"
      with b have "endsWith b '',''" by (simp add: endsWith_single)
      with a show False by blast
    qed
    with b ws show "\<exists>pre ws. b = pre @ '','' @ ws \<and> ws \<noteq> [] \<and> (\<forall>x \<in> set ws. isWhiteSpace x)"
      by auto
  next
    assume "\<exists>pre ws. b = pre @ '','' @ ws \<and> ws \<noteq> [] \<and> (\<forall>x \<in> set ws. isWhiteSpace x)"
    then obtain pre ws where b: "b = pre @ CHR '','' # ws" and ne: "ws \<noteq> []"
      and ws: "\<forall>x \<in> set ws. isWhiteSpace x"
      by auto
    from b ws have "endsWith (trim b) '',''"
      using endsWith_trim [OF comma, of b] by blast
    moreover have "\<not> endsWith b '',''"
    proof
      assume "endsWith b '',''"
      then have "last b = CHR '',''" by (simp add: endsWith_single)
      with b ne have "last ws = CHR '',''" by simp
      with ne ws comma show False using last_in_set by metis
    qed
    ultimately show "endsWith (trim b) '','' \<and> \<not> endsWith b '',''" by blast
  qed
qed

text \<open>
  Claim C8, amended. With at least one argument typed, and a number of parameters other
  than the number of arguments, the suggestion is the remaining parameter tokens joined
  by a comma and a space, and before them: a comma and a space when the trimmed buffer
  does not end in a comma; one space when the buffer ends in a comma; nothing when the
  buffer ends in a comma followed by white space. (With as many parameters as
  arguments, \<^verbatim>\<open>finishParams\<close> returns \<^verbatim>\<open>undefined\<close>.)
\<close>

theorem finishParams_separator:
  assumes "length args > 0" and "length args \<noteq> length params"
  shows "finishParams args buffer params =
           Some ((if \<not> endsWith (trim buffer) '','' then '', ''
                  else if endsWith buffer '','' then '' '' else [])
                 @ join '', '' (drop (length args) params))"
proof (cases "endsWith (trim buffer) '',''")
  case False
  with assms show ?thesis by (simp add: finishParams_def Let_def)
next
  case True
  then have "CHR '','' \<in> set (trim buffer)"
    using last_in_set [of "trim buffer"] by (auto simp: endsWith_single)
  then have "CHR '','' \<in> set buffer"
    using set_trim by blast
  from spaces_after_last [OF this] True assms show ?thesis
    by (simp add: finishParams_def Let_def)
qed

theorem finishParams_separator_witness:
  "finishParams [Expr 2 3 (Identifier ''a'') :: string expr] ''f(a'' [''a'', ''b''] = Some '', b'' \<and>
   finishParams [Expr 2 3 (Identifier ''a'') :: string expr] ''f(a, '' [''a'', ''b''] = Some ''b'' \<and>
   finishParams [Expr 2 3 (Identifier ''a'') :: string expr] (''f(a,'' @ [CHR 0xA0]) [''a'', ''b'']
     = Some ''b''"
proof -
  have a: "\<not> endsWith (trim ''f(a'') '',''" and b: "endsWith (trim ''f(a, '') '',''"
    and c: "\<not> endsWith ''f(a, '' '',''"
    and b': "endsWith (trim (''f(a,'' @ [CHR 0xA0])) '',''"
    and c': "\<not> endsWith (''f(a,'' @ [CHR 0xA0]) '',''"
    by (simp_all add: endsWith_def trim_def isWhiteSpace_def)
  have d: "length [Expr 2 3 (Identifier ''a'') :: string expr] > 0"
    and e: "length [Expr 2 3 (Identifier ''a'') :: string expr] \<noteq> length [''a'', ''b'']"
    by simp_all
  from finishParams_separator [OF d e, of "''f(a''"] finishParams_separator [OF d e, of "''f(a, ''"]
    finishParams_separator [OF d e, of "''f(a,'' @ [CHR 0xA0]"] a b c b' c'
  show ?thesis by simp
qed

text \<open>
  Claim C8 as it is stated puts a comma and a space before the tokens unless the buffer
  ends in a comma followed by white space. The buffer \<^verbatim>\<open>f(a,\<close> ends in a comma with
  nothing after it; the suggestion is a space and \<^verbatim>\<open>b\<close>, without a comma. And where the
  one parameter has its argument already, as in \<^verbatim>\<open>f(a\<close> for a function of \<^verbatim>\<open>a\<close>, there is
  no suggestion at all.
\<close>

theorem finishParams_comma_counterexample:
  "endsWith ''f(a,'' '','' \<and>
   finishParams [Expr 2 3 (Identifier ''a'') :: string expr] ''f(a,'' [''a'', ''b''] = Some '' b'' \<and>
   finishParams [Expr 2 3 (Identifier ''a'') :: string expr] ''f(a,'' [''a'', ''b'']
     \<noteq> Some ('', '' @ join '', '' (drop 1 [''a'', ''b''])) \<and>
   finishParams [Expr 2 3 (Identifier ''a'') :: string expr] ''f(a'' [''a''] = None"
  by (simp add: finishParams_def Let_def endsWith_def trim_def isWhiteSpace_def lastIndexOf_def)

section \<open>Global names\<close>

text \<open>Line 151: for the empty buffer, the global names as they are.\<close>

lemma empty_buffer_names:
  assumes "collectGlobalNames E s = (Inr keys, s')"
  shows "onAutocomplete E [] s = (Inr (Keys keys), s')"
  using assms by (simp add: onAutocomplete_def bindE_def ret_def)

lemma filterKeys_string:
  assumes "P \<noteq> []"
  shows "filterKeys E keys (Some (StringValue P)) =
           Inr (map (drop (length P)) (filter (\<lambda>k. startsWith k P) keys))"
  using assms by (simp add: filterKeys_def truthy_def keepStarting_string sliceFilter_def)

lemma startsWith_Math: "startsWith ''Math'' ''Ma''" and startsWith_Ma: "startsWith ''Ma'' ''Ma''"
  by (simp_all add: startsWith_def)

text \<open>
  Claim C9, amended. For the buffer \<^verbatim>\<open>Ma\<close>, parsed as that one identifier, where
  \<^verbatim>\<open>Math\<close> is a global name and the only one that starts with \<^verbatim>\<open>Ma\<close>, the completion
  is a list that holds the suffix \<^verbatim>\<open>th\<close> and nothing else. For the empty buffer the
  completion is the list of all global names, whole and unfiltered.
\<close>

theorem completion_of_Ma:
  assumes "parseDammit E ''Ma'' = ExpressionStatement (Expr a b (Identifier ''Ma'')) # stmts"
    and "collectGlobalNames E s = (Inr keys, s')"
    and "\<forall>k \<in> set keys. startsWith k ''Ma'' \<longrightarrow> k = ''Math''"
    and "''Math'' \<in> set keys"
  shows "(\<exists>suffixes. onAutocomplete E ''Ma'' s = (Inr (Keys suffixes), s') \<and>
                     set suffixes = {''th''}) \<and>
         onAutocomplete E [] s = (Inr (Keys keys), s')"
proof -
  let ?suffixes = "map (drop (length ''Ma'')) (filter (\<lambda>k. startsWith k ''Ma'') keys)"
  have notkey: "''Ma'' \<notin> set keys"
  proof
    assume "''Ma'' \<in> set keys"
    with assms(3) startsWith_Ma have "''Ma'' = ''Math''" by blast
    then show False by simp
  qed
  have "filterKeys E keys (Some (StringValue ''Ma'')) = Inr ?suffixes"
    using filterKeys_string [of "''Ma''" E keys] by simp
  then have "filtered E keys (Some (StringValue ''Ma'')) s' = (Inr (Keys ?suffixes), s')"
    by (simp add: filtered_def bindE_def liftE_def ret_def)
  then have 1: "onAutocomplete E ''Ma'' s = (Inr (Keys ?suffixes), s')"
    using assms(1,2) notkey
    by (simp add: onAutocomplete_def bindE_def keysInclude_def Let_def)
  have "k \<in> set keys \<and> startsWith k ''Ma'' \<longleftrightarrow> k = ''Math''" for k
    using assms(3,4) startsWith_Math by blast
  then have "set (filter (\<lambda>k. startsWith k ''Ma'') keys) = {''Math''}"
    by auto
  then have 2: "set ?suffixes = {''th''}"
    by (simp only: set_map) simp
  have 3: "onAutocomplete E [] s = (Inr (Keys keys), s')"
    using assms(2) by (simp add: onAutocomplete_def bindE_def ret_def)
  from 1 2 3 show ?thesis by blast
qed

lemma demo_globals:
  "collectGlobalNames demoEnv demoState = (Inr [''Object'', ''Math''], demoState)"
  by (simp add: collectGlobalNames_def roundTrip_def Let_def demoEnv_def demoState_def)

theorem completion_of_Ma_witness:
  "onAutocomplete demoEnv ''Ma'' demoState = (Inr (Keys [''th'']), demoState)"
proof -
  have 1: "parseDammit demoEnv ''Ma'' = ExpressionStatement (Expr 0 2 (Identifier ''Ma'')) # []"
    by (simp add: demoEnv_def demoParse_def)
  have 3: "\<forall>k \<in> set [''Object'', ''Math'']. startsWith k ''Ma'' \<longrightarrow> k = ''Math''"
    by (simp add: startsWith_def)
  have 4: "''Math'' \<in> set [''Object'', ''Math'']" by simp
  from completion_of_Ma [OF 1 demo_globals 3 4]
  obtain suffixes where "onAutocomplete demoEnv ''Ma'' demoState = (Inr (Keys suffixes), demoState)"
    by blast
  moreover have "filterKeys demoEnv [''Object'', ''Math''] (Some (StringValue ''Ma'')) = Inr [''th'']"
    by (simp add: filterKeys_string startsWith_def)
  then have "filtered demoEnv [''Object'', ''Math''] (Some (StringValue ''Ma'')) demoState
      = (Inr (Keys [''th'']), demoState)"
    by (simp add: filtered_def bindE_def liftE_def ret_def)
  then have "fst (onAutocomplete demoEnv ''Ma'' demoState) = Inr (Keys [''th''])"
    using 1 demo_globals
    by (simp add: onAutocomplete_def bindE_def keysInclude_def Let_def)
  ultimately show ?thesis by simp
qed

text \<open>
  Claim C9 as it is stated is about the empty buffer. There the names are returned
  whole: with the global names \<^verbatim>\<open>Object\<close> and \<^verbatim>\<open>Math\<close> the completion is these two, and
  \<^verbatim>\<open>th\<close> is not among them.
\<close>

theorem empty_buffer_counterexample:
  "onAutocomplete demoEnv [] demoState = (Inr (Keys [''Object'', ''Math'']), demoState) \<and>
   ''th'' \<notin> set [''Object'', ''Math'']"
  by (simp add: onAutocomplete_def bindE_def ret_def demo_globals)

section \<open>Parameter tokens\<close>

text \<open>On a parameter list in which no pattern has an elision or a property without a
  value, \<^verbatim>\<open>paramName\<close> gives every parameter the token of the specification; in
  particular for the parameters of \<^verbatim>\<open>function f(a, b = 1, ...rest)\<close>.\<close>

lemma paramName_specToken: "elisionFree p \<Longrightarrow> paramName p = Inr (specToken p)"
  and paramNames_specToken: "list_all elisionFree ps \<Longrightarrow> paramNames ps = Inr (map specToken ps)"
  by (induction p and ps rule: paramName_paramNames.induct) simp_all

lemma paramNames_example:
  "paramNames [IdentifierPattern ''a'', AssignmentPattern (IdentifierPattern ''b''),
               RestElement (IdentifierPattern ''rest'')] = Inr [''a'', ''?b'', ''...rest'']"
  by simp

text \<open>
  Claim C6 says what the extractor gives for every parsed parameter list. For the
  parameters of \<^verbatim>\<open>function f([a, , b]) {}\<close> it gives nothing: the elements of the array
  pattern are the identifier \<^verbatim>\<open>a\<close>, \<^verbatim>\<open>null\<close> for the elision, and the identifier \<^verbatim>\<open>b\<close>;
  \<^verbatim>\<open>paramName\<close> reads \<^verbatim>\<open>param.type\<close> of \<^verbatim>\<open>null\<close> before it reaches the \<^verbatim>\<open>default\<close> case
  that would give the placeholder, and throws.
\<close>

theorem paramName_elision:
  "paramNames [ArrayPattern [IdentifierPattern ''a'', NoPattern, IdentifierPattern ''b'']]
     = Inl TypeError"
  by simp

end
